theory Spec2Isabelle
  imports Complex_Main "HOL-Library.AList"
begin

section \<open>The build command of snowpack (src/commands/build.ts)\<close>

text \<open>
  A shallow embedding of \<^verbatim>\<open>command\<close>, the only function of build.ts. The command is
  one long asynchronous procedure; the model splits it at its stages and gives each stage a
  function that returns the effects it performs, in order, and the error it throws, if any.
  Everything the command reaches outside build.ts (child processes, plugins, the file system,
  glob, yargs and the functions of Node's \<^verbatim>\<open>path\<close> other than \<^verbatim>\<open>extname\<close>) is
  a field of the record \<open>world\<close>.

  A \<open>char\<close> stands for a UTF-16 code unit below 256, so the strings of the model are the
  JavaScript strings that are made of such code units.
\<close>

subsection \<open>Errors\<close>

datatype error =
    MountCommandError string
  | TypeError
  | Rejected string

text \<open>
  \<open>MountCommandError msg\<close> is the \<^verbatim>\<open>new Error(msg)\<close> of line 140, \<open>TypeError\<close> what
  the engine throws for an \<^verbatim>\<open>undefined\<close> path argument, for a call of something that
  is not a function, for a built-in method called without an object and for an assignment
  to a property of a primitive value, \<open>Rejected msg\<close> the rejection of an awaited promise
  or a failed \<^verbatim>\<open>require\<close>.
\<close>

subsection \<open>JavaScript strings\<close>

definition startsWith :: "string \<Rightarrow> string \<Rightarrow> bool" where
  \<comment> \<open>\<^verbatim>\<open>s.startsWith(p)\<close>, written \<open>startsWith p s\<close>\<close>
  "startsWith p s = (take (length p) s = p)"

definition endsWith :: "string \<Rightarrow> string \<Rightarrow> bool" where
  \<comment> \<open>\<^verbatim>\<open>s.endsWith(p)\<close>\<close>
  "endsWith p s = (drop (length s - length p) s = p)"

fun includes_str :: "string \<Rightarrow> string \<Rightarrow> bool" where
  \<comment> \<open>\<^verbatim>\<open>s.includes(p)\<close>: p occurs somewhere in s\<close>
  "includes_str p [] = (p = [])"
| "includes_str p (c # cs) = (startsWith p (c # cs) \<or> includes_str p cs)"

fun split_on :: "char \<Rightarrow> string \<Rightarrow> string list" where
  \<comment> \<open>\<^verbatim>\<open>s.split(c)\<close> for a one-character separator: never the empty list\<close>
  "split_on d [] = [[]]"
| "split_on d (c # cs) =
     (if c = d then [] # split_on d cs
      else (case split_on d cs of [] \<Rightarrow> [[c]] | t # ts \<Rightarrow> (c # t) # ts))"

definition is_space :: "char \<Rightarrow> bool" where
  \<comment> \<open>the code units below 256 of the class \<^verbatim>\<open>\s\<close>: tab, line feed, vertical tab,
      form feed, carriage return, space and the no-break space U+00A0\<close>
  "is_space c = (c = CHR '' '' \<or> c = CHR 0x09 \<or> c = CHR 0x0A \<or> c = CHR 0x0B
                 \<or> c = CHR 0x0C \<or> c = CHR 0x0D \<or> c = CHR 0xA0)"

fun split_ws_from :: "bool \<Rightarrow> string \<Rightarrow> string \<Rightarrow> string list" where
  \<comment> \<open>the scan behind \<^verbatim>\<open>s.split(/\s+/)\<close>: \<open>inws\<close> says that the scan is inside a run
      of white space, \<open>cur\<close> is the current piece, reversed\<close>
  "split_ws_from inws cur [] = [rev cur]"
| "split_ws_from inws cur (c # cs) =
     (if is_space c then
        (if inws then split_ws_from True cur cs else rev cur # split_ws_from True [] cs)
      else split_ws_from False (c # cur) cs)"

definition split_ws :: "string \<Rightarrow> string list" where
  \<comment> \<open>\<^verbatim>\<open>s.split(/\s+/)\<close>: a leading or trailing run of white space gives an empty first
      or last piece\<close>
  "split_ws s = split_ws_from False [] s"

fun substitution :: "string \<Rightarrow> string \<Rightarrow> string \<Rightarrow> string \<Rightarrow> string" where
  \<comment> \<open>what \<^verbatim>\<open>String.prototype.replace\<close> inserts for a replacement string, where the
      pattern has no groups: \<^verbatim>\<open>$$\<close> stands for a dollar sign, \<^verbatim>\<open>$&\<close> for the match,
      \<^verbatim>\<open>$\<close> and a backquote for the text before the match, \<^verbatim>\<open>$\<close> and a quote for the
      text after it\<close>
  "substitution matched passed rest (c # d # cs) =
     (if c = CHR ''$'' \<and> d = CHR ''$'' then CHR ''$'' # substitution matched passed rest cs
      else if c = CHR ''$'' \<and> d = CHR ''&'' then matched @ substitution matched passed rest cs
      else if c = CHR ''$'' \<and> d = CHR 0x60 then passed @ substitution matched passed rest cs
      else if c = CHR ''$'' \<and> d = CHR 0x27 then rest @ substitution matched passed rest cs
      else c # substitution matched passed rest (d # cs))"
| "substitution matched passed rest cs = cs"

fun replace_from :: "string \<Rightarrow> string \<Rightarrow> string \<Rightarrow> string \<Rightarrow> string" where
  \<comment> \<open>the scan behind \<open>replace_first\<close>; \<open>passed\<close> is the text already passed, reversed\<close>
  "replace_from passed pat rep [] =
     (if pat = [] then substitution [] (rev passed) [] rep else [])"
| "replace_from passed pat rep (c # cs) =
     (if startsWith pat (c # cs)
      then substitution pat (rev passed) (drop (length pat) (c # cs)) rep @
           drop (length pat) (c # cs)
      else c # replace_from (c # passed) pat rep cs)"

definition replace_first :: "string \<Rightarrow> string \<Rightarrow> string \<Rightarrow> string" where
  \<comment> \<open>\<^verbatim>\<open>s.replace(pat, rep)\<close> for a string pattern: the first occurrence only\<close>
  "replace_first pat rep s = replace_from [] pat rep s"

subsection \<open>Node's path.extname\<close>

definition extname :: "string \<Rightarrow> string" where
  \<comment> \<open>\<^verbatim>\<open>path.extname(p)\<close> (POSIX): trailing separators are skipped; in the last component
      the extension runs from its last dot to its end; it is empty when the component has no
      dot, when its only dot is its first character, and when the component is \<^verbatim>\<open>..\<close>.
      The three local lists are reversed.\<close>
  "extname p =
     (let trimmed = dropWhile (\<lambda>c. c = CHR ''/'') (rev p);
          base = takeWhile (\<lambda>c. c \<noteq> CHR ''/'') trimmed;
          ext = takeWhile (\<lambda>c. c \<noteq> CHR ''.'') base;
          pre = drop (Suc (length ext)) base
      in if CHR ''.'' \<notin> set base \<or> pre = [] \<or> (ext = [] \<and> pre = ''.'') then []
         else CHR ''.'' # rev ext)"

definition file_ext :: "string \<Rightarrow> string" where
  \<comment> \<open>\<^verbatim>\<open>path.extname(p).substr(1)\<close>\<close>
  "file_ext p = drop 1 (extname p)"

subsection \<open>Objects used as tables\<close>

text \<open>
  \<^verbatim>\<open>srcFileExtensionMapping\<close> (src-file-extension-mapping.ts, not among the sources) and
  the \<^verbatim>\<open>imports\<close> of the import map (import-map.json, typed by \<^verbatim>\<open>ImportMap\<close>) are
  objects with string values. The model takes each as the list of its own entries. A read
  \<^verbatim>\<open>table[key]\<close> finds an own entry first and then the properties that every object
  inherits from \<^verbatim>\<open>Object.prototype\<close>; it is \<^verbatim>\<open>undefined\<close> otherwise.
\<close>

type_synonym ext_table = "(string \<times> string) list"
type_synonym import_map = "(string \<times> string) list"

definition object_prototype_names :: "string list" where
  \<comment> \<open>the names of the properties of \<^verbatim>\<open>Object.prototype\<close>\<close>
  "object_prototype_names =
     [''constructor'', ''__defineGetter__'', ''__defineSetter__'', ''hasOwnProperty'',
      ''__lookupGetter__'', ''__lookupSetter__'', ''isPrototypeOf'', ''propertyIsEnumerable'',
      ''toString'', ''valueOf'', ''__proto__'', ''toLocaleString'']"

datatype jsval = Own string | Inherited string

text \<open>
  What a read of a table gives: \<open>Own v\<close> is the string of an own entry, \<open>Inherited k\<close> the
  property \<open>k\<close> of \<^verbatim>\<open>Object.prototype\<close>: a built-in function, or \<^verbatim>\<open>Object.prototype\<close>
  itself for \<^verbatim>\<open>__proto__\<close>.
\<close>

definition js_get :: "(string \<times> string) list \<Rightarrow> string \<Rightarrow> jsval option" where
  \<comment> \<open>\<^verbatim>\<open>obj[k]\<close>, \<open>None\<close> for \<^verbatim>\<open>undefined\<close>\<close>
  "js_get obj k =
     (case map_of obj k of
        Some v \<Rightarrow> Some (Own v)
      | None \<Rightarrow> if k \<in> set object_prototype_names then Some (Inherited k) else None)"

definition lookup_truthy :: "(string \<times> string) list \<Rightarrow> string \<Rightarrow> jsval option" where
  \<comment> \<open>the value of \<^verbatim>\<open>obj[k]\<close> where the test \<^verbatim>\<open>if (obj[k])\<close> holds: an own entry that is
      not the empty string, or an inherited property\<close>
  "lookup_truthy obj k =
     (case js_get obj k of
        Some (Own v) \<Rightarrow> if v = [] then None else Some (Own v)
      | Some (Inherited n) \<Rightarrow> Some (Inherited n)
      | None \<Rightarrow> None)"

definition js_text :: "jsval \<Rightarrow> string" where
  \<comment> \<open>the value inside a template literal: V8 prints a built-in function as
      \<^verbatim>\<open>function name() { [native code] }\<close> and \<^verbatim>\<open>Object.prototype\<close> as
      \<^verbatim>\<open>[object Object]\<close>\<close>
  "js_text v =
     (case v of
        Own t \<Rightarrow> t
      | Inherited k \<Rightarrow>
          if k = ''__proto__'' then ''[object Object]''
          else ''function '' @ (if k = ''constructor'' then ''Object'' else k) @
               ''() { [native code] }'')"

definition replacer_text :: "string \<Rightarrow> string \<Rightarrow> error + string" where
  \<comment> \<open>the text that \<^verbatim>\<open>String.prototype.replace\<close> puts in the place of the match \<open>m\<close> when
      its second argument is the inherited property \<open>k\<close>. A function is called with the
      match and without a \<^verbatim>\<open>this\<close>: \<^verbatim>\<open>Object\<close> returns the match as an object,
      \<^verbatim>\<open>toString\<close> answers for \<^verbatim>\<open>undefined\<close>, \<^verbatim>\<open>isPrototypeOf\<close> answers \<^verbatim>\<open>false\<close> for
      a string, and the other methods throw for want of an object. \<^verbatim>\<open>Object.prototype\<close>
      is no function and is inserted as text.\<close>
  "replacer_text k m =
     (if k = ''constructor'' then Inr m
      else if k = ''toString'' then Inr ''[object Undefined]''
      else if k = ''isPrototypeOf'' then Inr ''false''
      else if k = ''__proto__'' then Inr ''[object Object]''
      else Inl TypeError)"

definition replace_at_end :: "string \<Rightarrow> jsval \<Rightarrow> string \<Rightarrow> error + string" where
  \<comment> \<open>\<^verbatim>\<open>s.replace(new RegExp(`${ext}$`), v)\<close>, for the value \<open>v\<close> that the table has for
      \<open>ext\<close>. For an extension of letters, digits and underscores the pattern is the
      literal \<open>ext\<close> anchored at the end of \<open>s\<close>. No match leaves \<open>s\<close> as it was, and
      nothing is called.\<close>
  "replace_at_end ext v s =
     (if \<not> endsWith ext s then Inr s
      else (case v of
              Own rep \<Rightarrow>
                Inr (take (length s - length ext) s @
                     substitution ext (take (length s - length ext) s) [] rep)
            | Inherited k \<Rightarrow>
                (case replacer_text k ext of
                   Inl e \<Rightarrow> Inl e
                 | Inr t \<Rightarrow> Inr (take (length s - length ext) s @ t))))"

subsection \<open>Events\<close>

datatype event =
    WORKER_UPDATE string "string list"
  | WORKER_MSG string string string
  | WORKER_COMPLETE string "string option"
  | WORKER_RESET string
  | MISSING_WEB_MODULE string
  | CONSOLE string string

text \<open>
  \<open>WORKER_UPDATE id state\<close> (the state \<^verbatim>\<open>['RUNNING', 'yellow']\<close> is a list),
  \<open>WORKER_MSG id level msg\<close>, \<open>WORKER_COMPLETE id error\<close> (with
  \<open>None\<close> for \<^verbatim>\<open>error: null\<close>), \<open>WORKER_RESET id\<close> and \<open>MISSING_WEB_MODULE specifier\<close> are
  the messages build.ts emits on its message bus. \<open>CONSOLE level text\<close> is what
  \<^verbatim>\<open>console.log\<close>, \<^verbatim>\<open>console.warn\<close> and \<^verbatim>\<open>console.error\<close> emit once the command has
  redirected them to the bus.
\<close>

subsection \<open>The two specifier resolvers\<close>

definition missing_extension :: "string \<Rightarrow> string \<Rightarrow> event" where
  \<comment> \<open>\<^verbatim>\<open>console.error(`${f}: Import ${spec} is missing a required file extension.`)\<close>\<close>
  "missing_extension f spec =
     CONSOLE ''error'' (f @ '': Import '' @ spec @ '' is missing a required file extension.'')"

type_synonym resolved = "error + event list \<times> string"

text \<open>
  What a call of a resolver does: it throws, or it emits events and returns a specifier.
\<close>

definition resolve_relative :: "ext_table \<Rightarrow> string \<Rightarrow> string \<Rightarrow> resolved" where
  \<comment> \<open>the branch for \<^verbatim>\<open>./\<close> and \<^verbatim>\<open>../\<close>, the same text in both resolvers
      (lines 207 to 216 and 252 to 261)\<close>
  "resolve_relative tbl f spec =
     (let ext = file_ext spec in
      if ext = [] then Inr ([missing_extension f spec], spec)
      else (case lookup_truthy tbl ext of
              Some extToReplace \<Rightarrow>
                (case replace_at_end ext extToReplace spec of
                   Inl e \<Rightarrow> Inl e
                 | Inr spec' \<Rightarrow> Inr ([], spec'))
            | None \<Rightarrow> Inr ([], spec)))"

definition build_resolve :: "ext_table \<Rightarrow> import_map \<Rightarrow> string \<Rightarrow> string \<Rightarrow> resolved" where
  \<comment> \<open>the callback of the build branch (lines 202 to 223), for the file \<open>f\<close>\<close>
  "build_resolve tbl imports f spec =
     (if startsWith ''http'' spec \<or> startsWith ''/'' spec then Inr ([], spec)
      else if startsWith ''./'' spec \<or> startsWith ''../'' spec then resolve_relative tbl f spec
      else (case lookup_truthy imports spec of
              Some mapped \<Rightarrow> Inr ([], ''/web_modules/'' @ js_text mapped)
            | None \<Rightarrow> Inr ([MISSING_WEB_MODULE spec], ''/web_modules/'' @ spec @ ''.js'')))"

definition plugin_resolve :: "ext_table \<Rightarrow> string \<Rightarrow> string \<Rightarrow> resolved" where
  \<comment> \<open>the callback of the plugin branch (lines 247 to 264)\<close>
  "plugin_resolve tbl f spec =
     (if startsWith ''http'' spec \<or> startsWith ''/'' spec then Inr ([], spec)
      else if startsWith ''./'' spec \<or> startsWith ''../'' spec then resolve_relative tbl f spec
      else Inr ([], ''/web_modules/'' @ spec @ ''.js''))"

subsection \<open>The import rewriter\<close>

text \<open>
  Modelled from the spec: the scan of a piece of code by the import rewriter of
  rewrite-imports.ts, which is not among the sources. The spec (4.3) lets the rewriter find
  the specifier string literals of the import and export statements; a piece of code is
  given here as these specifiers and the text between them, in order.
\<close>

datatype segment = Text string | Specifier string

type_synonym code = "segment list"

definition render :: "code \<Rightarrow> string" where
  \<comment> \<open>the text of a piece of code\<close>
  "render c = concat (map (\<lambda>s. case s of Text t \<Rightarrow> t | Specifier t \<Rightarrow> t) c)"

text \<open>
  Modelled from the spec: \<^verbatim>\<open>transformEsmImports\<close> of rewrite-imports.ts, which is not among
  the sources. The spec (4.3): it scans the code for the specifier string literals of ESM
  import and export statements and replaces each one in place by what the resolver returns
  for it; all other text is untouched byte for byte. The resolver is called once for each
  specifier, and the events of the calls are collected. The spec is silent on a resolver
  that throws; as in any JavaScript call, the error ends the rewrite, after the events
  emitted so far.
\<close>

fun transformEsmImports ::
  "code \<Rightarrow> (string \<Rightarrow> resolved) \<Rightarrow> event list \<times> (error + code)" where
  "transformEsmImports [] replaceImport = ([], Inr [])"
| "transformEsmImports (Text t # c) replaceImport =
     (case transformEsmImports c replaceImport of
        (es, Inl e) \<Rightarrow> (es, Inl e)
      | (es, Inr c') \<Rightarrow> (es, Inr (Text t # c')))"
| "transformEsmImports (Specifier spec # c) replaceImport =
     (case replaceImport spec of
        Inl e \<Rightarrow> ([], Inl e)
      | Inr (ev, spec') \<Rightarrow>
          (case transformEsmImports c replaceImport of
             (es, Inl e) \<Rightarrow> (ev @ es, Inl e)
           | (es, Inr c') \<Rightarrow> (ev @ es, Inr (Specifier spec' # c'))))"

subsection \<open>Configuration, the world, effects\<close>

record DevScript =
  cmd :: string

record SnowpackConfig =
  scripts :: "(string \<times> DevScript) list"
  config_include :: string
  devOptions_bundle :: bool
  devOptions_out :: string
  devOptions_dist :: string
  devOptions_fallback :: string
  installOptions_dest :: string

text \<open>
  \<open>scripts\<close> is \<^verbatim>\<open>Object.entries(config.scripts)\<close>, in declaration order;
  \<open>config_include\<close> is \<^verbatim>\<open>config.include\<close>, empty when it is not set.
\<close>

datatype double = Finite rat | NegZero | PosInfinity | NegInfinity

datatype json =
    JNull | JBool bool | JNum double | JStr string | JArr "json list"
  | JObj "(string \<times> json) list"

text \<open>
  A value that \<^verbatim>\<open>JSON.parse\<close> returns; an object is the list of its entries. A number
  is a double: \<open>Finite q\<close> is the finite double of the value \<open>q\<close>, the negative zero
  apart. The parse rounds the number written in the file to the nearest double, so that
  \<^verbatim>\<open>9007199254740993\<close> is read as \<open>Finite 9007199254740992\<close> and \<^verbatim>\<open>1e400\<close> as
  \<open>PosInfinity\<close>; it returns no other number that is not finite.
\<close>

datatype content = CodeFile code | ManifestFile json | TextFile string

datatype effect =
    SetEnv string string
  | Stderr string
  | Rimraf string
  | Mkdirp string
  | Paint "string list" string
  | Emit event
  | Spawn string string
  | Copy string string
  | Exec string string
  | PluginBuild string string
  | MkdirRec string
  | WriteFile string content
  | Join
  | CopyFiltered string string
  | Parcel string string

text \<open>
  What the command does to the world, in the order it does it: \<open>SetEnv\<close> is the assignment
  to \<^verbatim>\<open>process.env\<close>, \<open>Stderr\<close> is
  \<^verbatim>\<open>console.error\<close> before its redirection, \<open>Emit\<close> a message on the bus,
  \<open>Spawn id cmd\<close> the start of a lintall worker, \<open>Exec cmd f\<close> a build command run with the
  file \<open>f\<close> on its input, \<open>PluginBuild cmd f\<close> a call of a plugin's \<^verbatim>\<open>build(f)\<close>,
  \<open>MkdirRec\<close> and \<open>WriteFile\<close> the two calls of \<^verbatim>\<open>fs\<close>, \<open>Join\<close> the
  \<^verbatim>\<open>Promise.all\<close> over the lintall workers, \<open>CopyFiltered\<close> the filtered copy of the
  bundle stage, \<open>Parcel entry out\<close> the run of the bundler. The messages that the output of
  a running lintall worker or of the bundler triggers arrive when that process writes, not
  when the command acts, and are not part of the trace.
\<close>

record world =
  cwd :: string
  srcFileExtensionMapping :: ext_table
  import_map_error :: "string option"
  dependencyImportMap :: import_map
  path_join :: "string \<Rightarrow> string \<Rightarrow> string"
  path_resolve :: "string \<Rightarrow> string \<Rightarrow> string"
  path_relative :: "string \<Rightarrow> string \<Rightarrow> string"
  path_dirname :: "string \<Rightarrow> string"
  yargs_to :: "string list \<Rightarrow> string option"
  copy :: "string \<Rightarrow> string \<Rightarrow> string option"
  glob_sync :: "string \<Rightarrow> string list"
  execa_command :: "string \<Rightarrow> string \<Rightarrow> string + (code \<times> string)"
  plugin_module :: "string \<Rightarrow> (string \<Rightarrow> string + code) option"
  promise_all :: "(string \<times> DevScript) list \<Rightarrow> string option"
  package_json :: "(string \<times> json) list"
  babel_plugin_path :: string
  parcel :: "string \<Rightarrow> string \<Rightarrow> string option"

text \<open>
  The surroundings of one run. \<open>import_map_error\<close> is the error of the
  \<^verbatim>\<open>require\<close> of line 37, \<open>None\<close> when the import map loads, and
  \<open>dependencyImportMap\<close> is then the \<^verbatim>\<open>imports\<close> object of the map. \<open>package_json\<close> is
  the object that \<^verbatim>\<open>JSON.parse\<close> returns for the text of the manifest of the project.
  \<open>yargs_to args\<close> is the \<^verbatim>\<open>to\<close> option yargs finds; \<open>copy src dst\<close> and
  \<open>parcel entry out\<close> return the error of a failed run, \<open>promise_all\<close> the rejection of
  the join over the lintall workers; \<open>execa_command cmd f\<close> is the rejection of the child
  process or its standard output and standard error; \<open>plugin_module cmd\<close> is the
  \<^verbatim>\<open>build\<close> function of the module, \<open>None\<close> when the module cannot be resolved, and
  \<open>build f\<close> the message of the error it throws or its \<^verbatim>\<open>result\<close>.
\<close>

type_synonym outcome = "effect list \<times> error option"

definition andThen :: "outcome \<Rightarrow> outcome \<Rightarrow> outcome" where
  \<comment> \<open>sequencing: an error thrown by the first part ends the run\<close>
  "andThen a b = (case snd a of Some e \<Rightarrow> a | None \<Rightarrow> (fst a @ fst b, snd b))"

fun for_each :: "('a \<Rightarrow> outcome) \<Rightarrow> 'a list \<Rightarrow> outcome" where
  \<comment> \<open>a \<^verbatim>\<open>for ... of\<close> loop\<close>
  "for_each body [] = ([], None)"
| "for_each body (x # xs) = andThen (body x) (for_each body xs)"

subsection \<open>Directories and the worker registry\<close>

definition finalDirectoryLoc :: "SnowpackConfig \<Rightarrow> string" where
  "finalDirectoryLoc C = devOptions_out C"

definition buildDirectoryLoc :: "world \<Rightarrow> SnowpackConfig \<Rightarrow> string" where
  "buildDirectoryLoc W C =
     (if devOptions_bundle C then path_join W (cwd W) ''.build'' else devOptions_out C)"

definition distDirectoryLoc :: "world \<Rightarrow> SnowpackConfig \<Rightarrow> string" where
  "distDirectoryLoc W C = path_join W (buildDirectoryLoc W C) (devOptions_dist C)"

definition no_build_scripts :: "SnowpackConfig \<Rightarrow> bool" where
  \<comment> \<open>the test of line 39\<close>
  "no_build_scripts C = (filter (\<lambda>(wid, w). startsWith ''build'' wid) (scripts C) = [])"

definition reset_directories :: "world \<Rightarrow> SnowpackConfig \<Rightarrow> outcome" where
  \<comment> \<open>lines 45 to 50\<close>
  "reset_directories W C =
     ([Rimraf (finalDirectoryLoc C), Mkdirp (finalDirectoryLoc C)] @
      (if finalDirectoryLoc C \<noteq> buildDirectoryLoc W C
       then [Rimraf (buildDirectoryLoc W C), Mkdirp (buildDirectoryLoc W C)] else []), None)"

definition is_relevant :: "string \<Rightarrow> bool" where
  "is_relevant wid = (startsWith ''build:'' wid \<or> startsWith ''plugin:'' wid
                     \<or> startsWith ''lintall:'' wid \<or> startsWith ''mount:'' wid)"

definition relevantWorkers :: "SnowpackConfig \<Rightarrow> (string \<times> DevScript) list" where
  \<comment> \<open>lines 53 to 61 and 71 to 73\<close>
  "relevantWorkers C =
     filter (\<lambda>(wid, w). is_relevant wid) (scripts C) @
     (if devOptions_bundle C then [(''bundle:*'', \<lparr>cmd = ''NA''\<rparr>)] else [])"

type_synonym ext_index = "(string \<times> (string \<times> DevScript) list) list"

definition push_worker :: "string \<times> DevScript \<Rightarrow> ext_index \<Rightarrow> string \<Rightarrow> ext_index" where
  \<comment> \<open>lines 65 and 66\<close>
  "push_worker worker m ext =
     AList.update ext ((case map_of m ext of None \<Rightarrow> [] | Some ws \<Rightarrow> ws) @ [worker]) m"

definition declared_exts :: "string \<Rightarrow> string list" where
  \<comment> \<open>\<^verbatim>\<open>id.split(':')[1].split(',')\<close>, for an id with a colon\<close>
  "declared_exts wid = (case split_on CHR '':'' wid of _ # e # _ \<Rightarrow> split_on CHR '','' e | _ \<Rightarrow> [])"

definition extToWorkerMap :: "SnowpackConfig \<Rightarrow> ext_index" where
  \<comment> \<open>lines 52 to 69, where no declared extension is the name of an inherited property;
      the command builds this index and does not read it afterwards\<close>
  "extToWorkerMap C =
     foldl (\<lambda>m (wid, w).
              if startsWith ''build:'' wid \<or> startsWith ''plugin:'' wid
              then foldl (push_worker (wid, w)) m (declared_exts wid) else m)
           [] (scripts C)"

definition index_throws :: "SnowpackConfig \<Rightarrow> bool" where
  \<comment> \<open>lines 65 and 66 for a declared extension that is the name of an inherited property:
      \<^verbatim>\<open>extToWorkerMap[ext] || []\<close> is that property, which has no \<^verbatim>\<open>push\<close>, and the
      call throws\<close>
  "index_throws C =
     list_ex (\<lambda>(wid, w). (startsWith ''build:'' wid \<or> startsWith ''plugin:'' wid) \<and>
                list_ex (\<lambda>ext. ext \<in> set object_prototype_names) (declared_exts wid))
       (scripts C)"

definition index_stage :: "SnowpackConfig \<Rightarrow> outcome" where
  \<comment> \<open>lines 52 to 73: no effect, and the error of line 66\<close>
  "index_stage C = ([], if index_throws C then Some TypeError else None)"

definition relDest :: "world \<Rightarrow> SnowpackConfig \<Rightarrow> string" where
  \<comment> \<open>lines 84 to 87\<close>
  "relDest W C =
     (let r = path_relative W (cwd W) (devOptions_out C)
      in if \<not> startsWith ''../'' r then ''./'' @ r else r)"

definition paint_stage :: "world \<Rightarrow> SnowpackConfig \<Rightarrow> outcome" where
  "paint_stage W C = ([Paint (map fst (relevantWorkers C)) (relDest W C)], None)"

subsection \<open>Lint workers and the mount stage\<close>

definition RUNNING :: "string list" where
  "RUNNING = [''RUNNING'', ''yellow'']"

definition lint_worker :: "string \<times> DevScript \<Rightarrow> outcome" where
  \<comment> \<open>lines 91 to 100: the worker is started and not awaited\<close>
  "lint_worker worker =
     (case worker of (wid, workerConfig) \<Rightarrow>
        if \<not> startsWith ''lintall:'' wid then ([], None)
        else ([Emit (WORKER_UPDATE wid RUNNING), Spawn wid (cmd workerConfig)], None))"

definition lint_stage :: "SnowpackConfig \<Rightarrow> outcome" where
  "lint_stage C = for_each lint_worker (relevantWorkers C)"

definition mount_error :: "string \<Rightarrow> error" where
  "mount_error wid = MountCommandError (''script['' @ wid @ ''] must use the mount command'')"

definition mount_target :: "world \<Rightarrow> string list \<Rightarrow> error + (string \<times> string option)" where
  \<comment> \<open>lines 143 to 151, on the command without its first piece: the directory on disk and
      the URL, which is \<^verbatim>\<open>undefined\<close> when yargs finds no \<^verbatim>\<open>to\<close>;
      \<^verbatim>\<open>path.resolve(cwd, undefined)\<close> throws\<close>
  "mount_target W args =
     (case args of
        [] \<Rightarrow> Inl TypeError
      | [a] \<Rightarrow> Inr (path_resolve W (cwd W) a, Some (''/'' @ a))
      | a # _ \<Rightarrow> Inr (path_resolve W (cwd W) a, yargs_to W args))"

definition mount_worker :: "world \<Rightarrow> SnowpackConfig \<Rightarrow> string \<times> DevScript \<Rightarrow> outcome" where
  \<comment> \<open>lines 135 to 160\<close>
  "mount_worker W C worker =
     (case worker of (wid, workerConfig) \<Rightarrow>
        if \<not> startsWith ''mount:'' wid then ([], None)
        else (case split_ws (cmd workerConfig) of
                [] \<Rightarrow> ([], Some (mount_error wid))
              | first # args \<Rightarrow>
                  if first \<noteq> ''mount'' then ([], Some (mount_error wid))
                  else (case mount_target W args of
                          Inl e \<Rightarrow> ([], Some e)
                        | Inr (dirDisk, None) \<Rightarrow> ([], Some TypeError)
                        | Inr (dirDisk, Some dirUrl) \<Rightarrow>
                            (let destinationFile =
                                   (if dirUrl = ''/'' then buildDirectoryLoc W C
                                    else path_join W (buildDirectoryLoc W C) dirUrl)
                             in case copy W dirDisk destinationFile of
                                  Some err \<Rightarrow>
                                    ([Copy dirDisk destinationFile,
                                      Emit (WORKER_MSG wid ''error'' err),
                                      Emit (WORKER_COMPLETE wid (Some err))], Some (Rejected err))
                                | None \<Rightarrow>
                                    ([Copy dirDisk destinationFile,
                                      Emit (WORKER_COMPLETE wid None)], None)))))"

definition mount_stage :: "world \<Rightarrow> SnowpackConfig \<Rightarrow> outcome" where
  "mount_stage W C = for_each (mount_worker W C) (relevantWorkers C)"

subsection \<open>The transform dispatcher\<close>

definition worker_matches :: "string \<Rightarrow> string \<Rightarrow> bool" where
  \<comment> \<open>lines 175 to 178, negated: the file \<open>f\<close> is not skipped for the worker \<open>wid\<close>\<close>
  "worker_matches wid f =
     (let fileExtension = file_ext f
      in includes_str ('':'' @ fileExtension) wid \<or> includes_str ('','' @ fileExtension) wid)"

definition outPath_of :: "world \<Rightarrow> SnowpackConfig \<Rightarrow> string \<Rightarrow> error + string" where
  \<comment> \<open>lines 194 to 199 and 239 to 244\<close>
  "outPath_of W C f =
     (let outPath = replace_first (config_include C) (distDirectoryLoc W C) f;
          extToFind = file_ext f
      in case lookup_truthy (srcFileExtensionMapping W) extToFind of
           Some extToReplace \<Rightarrow> replace_at_end extToFind extToReplace outPath
         | None \<Rightarrow> Inr outPath)"

definition write_output ::
  "world \<Rightarrow> string \<Rightarrow> code \<Rightarrow> (string \<Rightarrow> resolved) \<Rightarrow> outcome" where
  \<comment> \<open>lines 200 to 226 and 245 to 267: the code is rewritten if the output is a
      \<^verbatim>\<open>.js\<close> file, and written\<close>
  "write_output W outPath code replaceImport =
     (if extname outPath = ''.js'' then
        (case transformEsmImports code replaceImport of
           (es, Inl e) \<Rightarrow> (map Emit es, Some e)
         | (es, Inr code') \<Rightarrow>
             (map Emit es @
              [MkdirRec (path_dirname W outPath), WriteFile outPath (CodeFile code')], None))
      else ([MkdirRec (path_dirname W outPath), WriteFile outPath (CodeFile code)], None))"

definition build_file :: "world \<Rightarrow> SnowpackConfig \<Rightarrow> string \<Rightarrow> string \<Rightarrow> outcome" where
  \<comment> \<open>lines 181 to 227, for the command \<open>c\<close> of a build worker and the file \<open>f\<close>\<close>
  "build_file W C c f =
     (case execa_command W c f of
        Inl err \<Rightarrow> ([Exec c f], Some (Rejected err))
      | Inr (stdout, stderr) \<Rightarrow>
          andThen ([Exec c f] @ (if stderr \<noteq> [] then [Emit (CONSOLE ''error'' stderr)] else []),
                   None)
            (if render stdout = [] then ([], None)
             else (case outPath_of W C f of
                     Inl e \<Rightarrow> ([], Some e)
                   | Inr outPath \<Rightarrow>
                       write_output W outPath stdout
                         (build_resolve (srcFileExtensionMapping W)
                            (dependencyImportMap W) f))))"

definition plugin_file ::
  "world \<Rightarrow> SnowpackConfig \<Rightarrow> string \<Rightarrow> string \<Rightarrow> string \<Rightarrow> outcome" where
  \<comment> \<open>lines 228 to 268, for the plugin worker \<open>wid\<close> with the module \<open>c\<close>\<close>
  "plugin_file W C wid c f =
     (case plugin_module W c of
        None \<Rightarrow> ([], Some (Rejected (''Cannot find module '' @ c)))
      | Some build \<Rightarrow>
          (case build f of
             Inl message \<Rightarrow>
               ([PluginBuild c f,
                 Emit (CONSOLE ''error'' (''['' @ wid @ ''] '' @ message)),
                 Emit (WORKER_COMPLETE wid (Some (''['' @ wid @ ''] '' @ message)))], None)
           | Inr result \<Rightarrow>
               andThen ([PluginBuild c f], None)
                 (case outPath_of W C f of
                    Inl e \<Rightarrow> ([], Some e)
                  | Inr outPath \<Rightarrow>
                      write_output W outPath result
                        (plugin_resolve (srcFileExtensionMapping W) f))))"

definition process_file ::
  "world \<Rightarrow> SnowpackConfig \<Rightarrow> string \<times> DevScript \<Rightarrow> string \<Rightarrow> outcome" where
  \<comment> \<open>the body of the loop over the files, lines 175 to 268; an id begins with at most
      one of the two prefixes, so the two \<^verbatim>\<open>if\<close> statements are the branches of one\<close>
  "process_file W C worker f =
     (case worker of (wid, workerConfig) \<Rightarrow>
        if \<not> worker_matches wid f then ([], None)
        else if startsWith ''build:'' wid then build_file W C (cmd workerConfig) f
        else if startsWith ''plugin:'' wid then plugin_file W C wid (cmd workerConfig) f
        else ([], None))"

definition run_worker ::
  "world \<Rightarrow> SnowpackConfig \<Rightarrow> string list \<Rightarrow> string \<times> DevScript \<Rightarrow> outcome" where
  \<comment> \<open>the body of the loop over the workers, lines 170 to 270\<close>
  "run_worker W C allFiles worker =
     (if \<not> startsWith ''build:'' (fst worker) \<and> \<not> startsWith ''plugin:'' (fst worker)
      then ([], None)
      else andThen ([Emit (WORKER_UPDATE (fst worker) RUNNING)], None)
             (andThen (for_each (process_file W C worker) allFiles)
                ([Emit (WORKER_COMPLETE (fst worker) None)], None)))"

definition transform_stage :: "world \<Rightarrow> SnowpackConfig \<Rightarrow> outcome" where
  \<comment> \<open>lines 163 to 272\<close>
  "transform_stage W C =
     (if config_include C = [] then ([], None)
      else for_each (run_worker W C (glob_sync W (config_include C))) (relevantWorkers C))"

subsection \<open>The join and the bundle stage\<close>

definition join_stage :: "world \<Rightarrow> SnowpackConfig \<Rightarrow> outcome" where
  \<comment> \<open>line 274: rejected as soon as one lintall worker is\<close>
  "join_stage W C =
     (case promise_all W (filter (\<lambda>(wid, w). startsWith ''lintall:'' wid) (relevantWorkers C)) of
        Some err \<Rightarrow> ([Join], Some (Rejected err))
      | None \<Rightarrow> ([Join], None))"

definition truthy :: "json \<Rightarrow> bool" where
  \<comment> \<open>the values that \<^verbatim>\<open>||\<close> keeps: not \<^verbatim>\<open>null\<close>, \<^verbatim>\<open>false\<close>, a zero or the
      empty string\<close>
  "truthy j = (case j of JNull \<Rightarrow> False | JBool b \<Rightarrow> b
               | JNum d \<Rightarrow> d \<noteq> Finite 0 \<and> d \<noteq> NegZero
               | JStr t \<Rightarrow> t \<noteq> [] | JArr _ \<Rightarrow> True | JObj _ \<Rightarrow> True)"

definition or_default :: "json option \<Rightarrow> json \<Rightarrow> json" where
  \<comment> \<open>\<^verbatim>\<open>obj[key] || d\<close>, for the entry \<open>obj[key]\<close> if there is one\<close>
  "or_default entry d = (case entry of None \<Rightarrow> d | Some j \<Rightarrow> if truthy j then j else d)"

definition tempBuildManifest :: "(string \<times> json) list \<Rightarrow> error + (string \<times> json) list" where
  \<comment> \<open>lines 296 to 299, on the parsed manifest: the object that line 302 hands to
      \<^verbatim>\<open>JSON.stringify\<close>. An assignment to a property of a true boolean, a number or a
      string throws in a module; a named property of an array is not written by
      \<^verbatim>\<open>JSON.stringify\<close> and is left out here.\<close>
  "tempBuildManifest manifest =
     (let m = AList.delete ''name'' manifest;
          devDependencies = or_default (map_of m ''devDependencies'') (JObj [])
      in case devDependencies of
           JObj d \<Rightarrow>
             Inr (AList.update ''devDependencies''
                    (JObj (AList.update ''@babel/core''
                             (or_default (map_of d ''@babel/core'') (JStr ''^7.9.0'')) d)) m)
         | JArr a \<Rightarrow> Inr (AList.update ''devDependencies'' (JArr a) m)
         | _ \<Rightarrow> Inl TypeError)"

primrec written :: "json \<Rightarrow> json" where
  \<comment> \<open>the value that the text \<^verbatim>\<open>JSON.stringify(j, null, 2)\<close> denotes: an infinity is
      written as \<^verbatim>\<open>null\<close> and the negative zero as \<^verbatim>\<open>0\<close>\<close>
  "written JNull = JNull"
| "written (JBool b) = JBool b"
| "written (JNum d) =
     (case d of Finite q \<Rightarrow> JNum (Finite q) | NegZero \<Rightarrow> JNum (Finite 0)
      | PosInfinity \<Rightarrow> JNull | NegInfinity \<Rightarrow> JNull)"
| "written (JStr t) = JStr t"
| "written (JArr js) = JArr (map written js)"
| "written (JObj entries) = JObj (map (map_prod id written) entries)"

definition copy_filter :: "world \<Rightarrow> SnowpackConfig \<Rightarrow> string \<Rightarrow> bool" where
  \<comment> \<open>lines 282 to 287: the files that the bundle stage copies\<close>
  "copy_filter W C srcLoc =
     (\<not> startsWith (buildDirectoryLoc W C @ ''/'' @ ''web_modules'') srcLoc \<and>
      \<not> startsWith (buildDirectoryLoc W C @ ''/'' @ drop 1 (devOptions_dist C)) srcLoc)"

definition babelrc :: "string \<Rightarrow> string" where
  \<comment> \<open>the text of line 306; \<open>CHR 0x22\<close> is the double quote\<close>
  "babelrc plugin =
     ''{'' @ [CHR 0x22] @ ''plugins'' @ [CHR 0x22] @ '': [['' @ [CHR 0x22] @ plugin @
     [CHR 0x22] @ '']]}''"

definition prepareBuildDirectoryForParcel :: "world \<Rightarrow> SnowpackConfig \<Rightarrow> outcome" where
  \<comment> \<open>lines 278 to 308; \<open>CopyFiltered\<close> copies the files that satisfy \<open>copy_filter\<close>, and
      \<open>ManifestFile j\<close> is a file whose text denotes \<open>j\<close>\<close>
  "prepareBuildDirectoryForParcel W C =
     (case copy W (buildDirectoryLoc W C) (finalDirectoryLoc C) of
        Some err \<Rightarrow>
          ([CopyFiltered (buildDirectoryLoc W C) (finalDirectoryLoc C),
            Emit (WORKER_MSG ''bundle:*'' ''error'' err),
            Emit (WORKER_COMPLETE ''bundle:*'' (Some err))], Some (Rejected err))
      | None \<Rightarrow>
          andThen ([CopyFiltered (buildDirectoryLoc W C) (finalDirectoryLoc C)], None)
            (case tempBuildManifest (package_json W) of
               Inl e \<Rightarrow> ([], Some e)
             | Inr m \<Rightarrow>
                 ([WriteFile (path_join W (buildDirectoryLoc W C) ''package.json'')
                     (ManifestFile (written (JObj m))),
                   WriteFile (path_join W (buildDirectoryLoc W C) ''.babelrc'')
                     (TextFile (babelrc (babel_plugin_path W)))],
                  None)))"

definition bundle_stage :: "world \<Rightarrow> SnowpackConfig \<Rightarrow> outcome" where
  \<comment> \<open>lines 276 to 338\<close>
  "bundle_stage W C =
     (if \<not> devOptions_bundle C then ([], None)
      else andThen ([Emit (WORKER_UPDATE ''bundle:*'' RUNNING)], None)
             (andThen (prepareBuildDirectoryForParcel W C)
                (case parcel W (devOptions_fallback C) (finalDirectoryLoc C) of
                   Some err \<Rightarrow>
                     ([Parcel (devOptions_fallback C) (finalDirectoryLoc C),
                       Emit (WORKER_MSG ''bundle:*'' ''error'' err),
                       Emit (WORKER_COMPLETE ''bundle:*'' (Some err))], Some (Rejected err))
                 | None \<Rightarrow>
                     ([Parcel (devOptions_fallback C) (finalDirectoryLoc C),
                       Emit (WORKER_COMPLETE ''bundle:*'' None)] @
                      (if finalDirectoryLoc C \<noteq> buildDirectoryLoc W C
                       then [Rimraf (buildDirectoryLoc W C)] else []), None))))"

subsection \<open>The command\<close>

definition no_build_scripts_report :: "effect list" where
  \<comment> \<open>lines 40 and 41, written before \<^verbatim>\<open>console.error\<close> is redirected\<close>
  "no_build_scripts_report =
     [Stderr ''No build scripts found, so nothing to build.'',
      Stderr ''See https://www.snowpack.dev/#build-scripts for help configuring your build.'']"

definition stages_after_reset :: "world \<Rightarrow> SnowpackConfig \<Rightarrow> outcome" where
  \<comment> \<open>lines 52 to 338\<close>
  "stages_after_reset W C =
     andThen (index_stage C)
       (andThen (paint_stage W C)
          (andThen (lint_stage C)
             (andThen (mount_stage W C)
                (andThen (transform_stage W C)
                   (andThen (join_stage W C) (bundle_stage W C))))))"

definition command :: "world \<Rightarrow> SnowpackConfig \<Rightarrow> outcome" where
  \<comment> \<open>lines 39 to 338, the command once the import map is loaded: the effects of the run
      and the error it ends with, \<open>None\<close> when the command returns\<close>
  "command W C =
     (if no_build_scripts C then (no_build_scripts_report, None)
      else andThen (reset_directories W C) (stages_after_reset W C))"

definition build_command :: "world \<Rightarrow> SnowpackConfig \<Rightarrow> outcome" where
  \<comment> \<open>the whole of \<^verbatim>\<open>command\<close>, lines 24 to 338: line 25, the \<^verbatim>\<open>require\<close> of line 37,
      which throws when the import map cannot be loaded, and the rest\<close>
  "build_command W C =
     andThen ([SetEnv ''NODE_ENV'' ''production''], None)
       (case import_map_error W of
          Some err \<Rightarrow> ([], Some (Rejected err))
        | None \<Rightarrow> command W C)"

subsection \<open>Notions used by the properties\<close>

definition bare :: "string \<Rightarrow> bool" where
  \<comment> \<open>a specifier that passes the tests of lines 203 and 206 (248 and 251)\<close>
  "bare s = (\<not> startsWith ''http'' s \<and> \<not> startsWith ''/'' s \<and>
             \<not> startsWith ''./'' s \<and> \<not> startsWith ''../'' s)"

definition build_workers :: "SnowpackConfig \<Rightarrow> (string \<times> DevScript) list" where
  \<comment> \<open>the workers of the build category: the scripts whose id begins with \<^verbatim>\<open>build:\<close>\<close>
  "build_workers C = filter (\<lambda>(wid, w). startsWith ''build:'' wid) (scripts C)"

definition first_token :: "string \<Rightarrow> string" where
  \<comment> \<open>the first white-space separated token of a command, empty when it has none\<close>
  "first_token c = takeWhile (\<lambda>x. \<not> is_space x) (dropWhile is_space c)"

definition malformed_mount :: "string \<times> DevScript \<Rightarrow> bool" where
  \<comment> \<open>a mount worker whose command does not begin with the token \<^verbatim>\<open>mount\<close>\<close>
  "malformed_mount worker =
     (startsWith ''mount:'' (fst worker) \<and> first_token (cmd (snd worker)) \<noteq> ''mount'')"

definition later_stage_effect :: "effect \<Rightarrow> bool" where
  \<comment> \<open>the effects of the transform dispatcher, the join and the bundle stage\<close>
  "later_stage_effect e =
     (case e of
        Exec _ _ \<Rightarrow> True | PluginBuild _ _ \<Rightarrow> True | MkdirRec _ \<Rightarrow> True
      | WriteFile _ _ \<Rightarrow> True | Join \<Rightarrow> True | CopyFiltered _ _ \<Rightarrow> True | Parcel _ _ \<Rightarrow> True
      | Emit (WORKER_UPDATE wid _) \<Rightarrow> \<not> startsWith ''lintall:'' wid
      | Emit (WORKER_COMPLETE wid _) \<Rightarrow> \<not> startsWith ''mount:'' wid
      | Emit (WORKER_MSG wid _ _) \<Rightarrow> \<not> startsWith ''mount:'' wid
      | Emit (MISSING_WEB_MODULE _) \<Rightarrow> True
      | Emit (CONSOLE _ _) \<Rightarrow> True
      | _ \<Rightarrow> False)"




definition devDependencies_of :: "(string \<times> json) list \<Rightarrow> (string \<times> json) list" where
  \<comment> \<open>the entries of the \<^verbatim>\<open>devDependencies\<close> object of a manifest, none when the manifest
      has no such object\<close>
  "devDependencies_of manifest =
     (case map_of manifest ''devDependencies'' of Some (JObj d) \<Rightarrow> d | _ \<Rightarrow> [])"

definition devDependencies_usable :: "(string \<times> json) list \<Rightarrow> bool" where
  \<comment> \<open>\<^verbatim>\<open>devDependencies\<close> is missing, an object or a falsy value\<close>
  "devDependencies_usable manifest =
     (case map_of manifest ''devDependencies'' of
        None \<Rightarrow> True | Some (JObj d) \<Rightarrow> True | Some j \<Rightarrow> \<not> truthy j)"

subsection \<open>A sample project\<close>

definition sample_table :: ext_table where
  "sample_table = [(''js'', ''js''), (''jsx'', ''js''), (''ts'', ''js''), (''tsx'', ''js'')]"


definition sample_imports :: import_map where
  "sample_imports = [(''react'', ''./react.js''), (''http-proxy'', ''./http-proxy.js'')]"

definition sample_stdout :: code where
  \<comment> \<open>\<^verbatim>\<open>export const x = 1;\<close>, a line feed, \<^verbatim>\<open>import z from './b.ts';\<close>\<close>
  "sample_stdout =
     [Text (''export const x = 1;'' @ [CHR 0x0A] @ ''import z from '' @ [CHR 0x27]),
      Specifier ''./b.ts'', Text ([CHR 0x27] @ '';'')]"

definition sample_result :: code where
  \<comment> \<open>\<^verbatim>\<open>import React from 'react';\<close>\<close>
  "sample_result =
     [Text (''import React from '' @ [CHR 0x27]), Specifier ''react'', Text ([CHR 0x27] @ '';'')]"

definition sample_bare :: code where
  \<comment> \<open>three lines: \<^verbatim>\<open>import React from 'react';\<close>, \<^verbatim>\<open>import Vue from 'vue';\<close> and
      \<^verbatim>\<open>export * from 'vue';\<close>\<close>
  "sample_bare =
     [Text (''import React from '' @ [CHR 0x27]), Specifier ''react'',
      Text ([CHR 0x27] @ '';'' @ [CHR 0x0A] @ ''import Vue from '' @ [CHR 0x27]), Specifier ''vue'',
      Text ([CHR 0x27] @ '';'' @ [CHR 0x0A] @ ''export * from '' @ [CHR 0x27]), Specifier ''vue'',
      Text ([CHR 0x27] @ '';'')]"


definition sample_config :: SnowpackConfig where
  "sample_config =
     \<lparr>scripts = [(''build:ts'', \<lparr>cmd = ''cat''\<rparr>),
                 (''plugin:js'', \<lparr>cmd = ''./plugin.js''\<rparr>),
                 (''mount:public'', \<lparr>cmd = ''mount public --to /static''\<rparr>)],
      config_include = ''src'',
      devOptions_bundle = False,
      devOptions_out = ''/app/build'',
      devOptions_dist = ''/_dist_'',
      devOptions_fallback = ''index.html'',
      installOptions_dest = ''/app/web_modules''\<rparr>"

definition sample_world :: world where
  "sample_world =
     \<lparr>cwd = ''/app'',
      srcFileExtensionMapping = sample_table,
      import_map_error = None,
      dependencyImportMap = sample_imports,
      path_join = (\<lambda>a b. if startsWith ''/'' b then a @ b else a @ ''/'' @ b),
      path_resolve = (\<lambda>a b. a @ ''/'' @ b),
      path_relative = (\<lambda>a b. ''build''),
      path_dirname = (\<lambda>p. rev (drop 1 (dropWhile (\<lambda>c. c \<noteq> CHR ''/'') (rev p)))),
      yargs_to = (\<lambda>args. if 3 \<le> length args \<and> args ! 1 = ''--to'' then Some (args ! 2) else None),
      copy = (\<lambda>src dst. None),
      glob_sync = (\<lambda>root. [''src/a.ts'', ''src/bad.js'', ''src/c.js'']),
      execa_command = (\<lambda>c f. Inr (sample_stdout, [])),
      plugin_module =
        (\<lambda>c. Some (\<lambda>f. if f = ''src/bad.js'' then Inl ''boom'' else Inr sample_result)),
      promise_all = (\<lambda>ws. None),
      package_json =
        [(''name'', JStr ''app''), (''version'', JStr ''1.0.0''),
         (''devDependencies'',
          JObj [(''@babel/core'', JStr ''^7.0.0''), (''typescript'', JStr ''^3.8.0'')])],
      babel_plugin_path = ''/app/node_modules/@babel/plugin-syntax-import-meta/lib/index.js'',
      parcel = (\<lambda>entry out. None)\<rparr>"

definition bare_world :: world where
  \<comment> \<open>the sample world with a build command that prints \<open>sample_bare\<close>\<close>
  "bare_world = sample_world\<lparr>execa_command := (\<lambda>c f. Inr (sample_bare, []))\<rparr>"

definition odd_manifest :: "(string \<times> json) list" where
  \<comment> \<open>the parsed text
      \<^verbatim>\<open>{"name": "app", "size": 1e400, "devDependencies": {"@babel/core": ""}}\<close>\<close>
  "odd_manifest =
     [(''name'', JStr ''app''), (''size'', JNum PosInfinity),
      (''devDependencies'', JObj [(''@babel/core'', JStr [])])]"

definition bad_mount_config :: SnowpackConfig where
  "bad_mount_config =
     sample_config\<lparr>scripts := [(''build:ts'', \<lparr>cmd = ''cat''\<rparr>),
                                (''mount:public'', \<lparr>cmd = ''cp -r public''\<rparr>)]\<rparr>"

definition copy_then_bad_config :: SnowpackConfig where
  "copy_then_bad_config =
     sample_config\<lparr>scripts := [(''build:ts'', \<lparr>cmd = ''cat''\<rparr>),
                                (''mount:src'', \<lparr>cmd = ''mount src --to /_dist_''\<rparr>),
                                (''mount:public'', \<lparr>cmd = ''cp -r public''\<rparr>)]\<rparr>"

definition mount_only_config :: SnowpackConfig where
  "mount_only_config =
     sample_config\<lparr>scripts := [(''mount:public'', \<lparr>cmd = ''cp -r public''\<rparr>)]\<rparr>"

definition buildx_config :: SnowpackConfig where
  "buildx_config = sample_config\<lparr>scripts := [(''buildx'', \<lparr>cmd = ''cat''\<rparr>)]\<rparr>"

definition bundled_config :: SnowpackConfig where
  "bundled_config = sample_config\<lparr>devOptions_bundle := True\<rparr>"

definition tsx_config :: SnowpackConfig where
  "tsx_config = sample_config\<lparr>scripts := [(''build:tsx'', \<lparr>cmd = ''cat''\<rparr>)]\<rparr>"

section \<open>Properties\<close>

subsection \<open>The examples of Node's documentation for path.extname\<close>

lemma extname_documented:
  "extname ''index.html'' = ''.html''" "extname ''index.coffee.md'' = ''.md''"
  "extname ''index.'' = ''.''" "extname ''index'' = []" "extname ''.index'' = []"
  "extname ''.index.md'' = ''.md''"
  by (simp_all add: extname_def)

subsection \<open>Sequencing and loops\<close>

lemma andThen_None: "snd a = None \<Longrightarrow> andThen a b = (fst a @ fst b, snd b)"
  by (simp add: andThen_def)

lemma andThen_Some: "snd a = Some e \<Longrightarrow> andThen a b = a"
  by (simp add: andThen_def)

lemma for_each_throws:
  "x \<in> set xs \<Longrightarrow> snd (body x) \<noteq> None \<Longrightarrow> snd (for_each body xs) \<noteq> None"
  by (induction xs) (auto simp: andThen_def split: option.splits)

lemma for_each_effects:
  "(\<And>x. x \<in> set xs \<Longrightarrow> \<forall>e\<in>set (fst (body x)). P e) \<Longrightarrow>
   \<forall>e\<in>set (fst (for_each body xs)). P e"
  by (induction xs) (auto simp: andThen_def split: option.splits)

lemma for_each_total:
  "(\<And>x. x \<in> set xs \<Longrightarrow> snd (body x) = None) \<Longrightarrow> snd (for_each body xs) = None"
  by (induction xs) (auto simp: andThen_def split: option.splits)

lemma for_each_first_error:
  "xs = pre @ x # post \<Longrightarrow> (\<And>y. y \<in> set pre \<Longrightarrow> snd (body y) = None) \<Longrightarrow>
   snd (body x) \<noteq> None \<Longrightarrow> snd (for_each body xs) = snd (body x)"
  by (induction pre arbitrary: xs) (auto simp: andThen_def split: option.splits)

subsection \<open>The early return\<close>

text \<open>
  C6, as amended. When the import map loads and no script id begins with \<^verbatim>\<open>build\<close>
  (the test of line 39), the command sets \<^verbatim>\<open>NODE_ENV\<close>, writes its two lines to the
  error stream and returns without an error; that is all it does: no directory is removed or
  created and no stage runs.
\<close>

theorem no_build_scripts_returns_early:
  "import_map_error W = None \<Longrightarrow> no_build_scripts C \<Longrightarrow>
     build_command W C =
       (SetEnv ''NODE_ENV'' ''production'' # no_build_scripts_report, None) \<and>
     (\<forall>e\<in>set (fst (build_command W C)). (\<exists>k v. e = SetEnv k v) \<or> (\<exists>msg. e = Stderr msg))"
  by (simp add: build_command_def command_def andThen_def no_build_scripts_report_def)

theorem no_build_scripts_returns_early_witness:
  "import_map_error sample_world = None \<and> no_build_scripts mount_only_config \<and>
   build_command sample_world mount_only_config =
     ([SetEnv ''NODE_ENV'' ''production'',
       Stderr ''No build scripts found, so nothing to build.'',
       Stderr ''See https://www.snowpack.dev/#build-scripts for help configuring your build.''],
      None)"
  using no_build_scripts_returns_early [of sample_world mount_only_config]
  by (simp add: sample_world_def mount_only_config_def no_build_scripts_def startsWith_def
        no_build_scripts_report_def)

text \<open>
  C6 as it is stated fails in two ways. The script \<^verbatim>\<open>buildx\<close> is a worker of no
  category, but it passes the test of line 39, which asks for the prefix \<^verbatim>\<open>build\<close>
  without the colon: with no other script the command removes and recreates the output
  directory and goes through its stages. And where no script id begins with \<^verbatim>\<open>build\<close>
  but the import map cannot be loaded, the \<^verbatim>\<open>require\<close> of line 37 throws before the
  test is reached: the command ends with an error and reports nothing.
\<close>

theorem early_return_counterexample:
  "build_workers buildx_config = [] \<and> relevantWorkers buildx_config = [] \<and>
   build_command sample_world buildx_config =
     ([SetEnv ''NODE_ENV'' ''production'', Rimraf ''/app/build'', Mkdirp ''/app/build'',
       Paint [] ''./build'', Join], None) \<and>
   no_build_scripts mount_only_config \<and>
   build_command (sample_world\<lparr>import_map_error := Some ''Cannot find module''\<rparr>)
     mount_only_config =
     ([SetEnv ''NODE_ENV'' ''production''], Some (Rejected ''Cannot find module''))"
  by (simp add: build_workers_def buildx_config_def mount_only_config_def sample_config_def
        sample_world_def build_command_def command_def no_build_scripts_def startsWith_def
        andThen_def reset_directories_def finalDirectoryLoc_def buildDirectoryLoc_def
        stages_after_reset_def index_stage_def index_throws_def paint_stage_def
        relevantWorkers_def is_relevant_def relDest_def lint_stage_def mount_stage_def
        transform_stage_def join_stage_def bundle_stage_def)

subsection \<open>The order of the stages\<close>

lemma hd_split_ws_from:
  "hd (split_ws_from False cur s) = rev cur @ takeWhile (\<lambda>c. \<not> is_space c) s"
  by (induction s arbitrary: cur) auto

lemma split_ws_first:
  assumes "first_token c \<noteq> ''mount''" and "split_ws c = first # args"
  shows "first \<noteq> ''mount''"
proof -
  have f: "first = takeWhile (\<lambda>x. \<not> is_space x) c"
    using assms(2) hd_split_ws_from [of "[]" c] by (simp add: split_ws_def)
  show ?thesis
  proof (cases c)
    case Nil
    with f show ?thesis by simp
  next
    case (Cons x xs)
    show ?thesis
    proof (cases "is_space x")
      case True
      with f Cons show ?thesis by simp
    next
      case False
      with Cons have "first_token c = takeWhile (\<lambda>x. \<not> is_space x) c"
        by (simp add: first_token_def)
      with f assms(1) show ?thesis by simp
    qed
  qed
qed

lemma mount_worker_malformed:
  "malformed_mount worker \<Longrightarrow> mount_worker W C worker = ([], Some (mount_error (fst worker)))"
  by (cases worker)
     (auto simp: malformed_mount_def mount_worker_def split: list.splits dest: split_ws_first)

lemma lint_stage_total: "snd (lint_stage C) = None"
  unfolding lint_stage_def by (rule for_each_total) (auto simp: lint_worker_def)

lemma lint_stage_effects:
  "\<forall>e\<in>set (fst (lint_stage C)). \<not> later_stage_effect e \<and> (\<forall>a b. e \<noteq> Copy a b)"
  unfolding lint_stage_def
  by (rule for_each_effects)
     (auto simp: lint_worker_def later_stage_effect_def split: if_splits)

lemma mount_stage_effects: "\<forall>e\<in>set (fst (mount_stage W C)). \<not> later_stage_effect e"
  unfolding mount_stage_def
  by (rule for_each_effects)
     (auto simp: mount_worker_def later_stage_effect_def Let_def
           split: list.splits sum.splits option.splits if_splits)

lemma malformed_mount_relevant:
  assumes "worker \<in> set (scripts C)" and "malformed_mount worker"
  shows "worker \<in> set (relevantWorkers C)"
  using assms
  by (cases worker) (auto simp: relevantWorkers_def is_relevant_def malformed_mount_def)

lemma mount_stage_throws:
  assumes "worker \<in> set (scripts C)" and "malformed_mount worker"
  shows "snd (mount_stage W C) \<noteq> None"
proof -
  have "worker \<in> set (relevantWorkers C)"
    using assms by (rule malformed_mount_relevant)
  moreover have "snd (mount_worker W C worker) \<noteq> None"
    using assms(2) by (simp add: mount_worker_malformed)
  ultimately show ?thesis
    unfolding mount_stage_def by (rule for_each_throws)
qed

lemma stages_stop_at_index:
  "index_throws C \<Longrightarrow> stages_after_reset W C = ([], Some TypeError)"
  by (simp add: stages_after_reset_def index_stage_def andThen_def)

lemma stages_stop_at_mount:
  assumes "\<not> index_throws C" and "snd (mount_stage W C) \<noteq> None"
  shows "stages_after_reset W C =
           (fst (paint_stage W C) @ fst (lint_stage C) @ fst (mount_stage W C),
            snd (mount_stage W C))"
  using assms
  by (auto simp: stages_after_reset_def index_stage_def andThen_def paint_stage_def
        lint_stage_total)

lemma stages_throw:
  assumes "snd (mount_stage W C) \<noteq> None"
  shows "snd (stages_after_reset W C) \<noteq> None"
  using assms stages_stop_at_index [of C W] stages_stop_at_mount [of C W]
  by (cases "index_throws C") simp_all

lemma stages_effects:
  assumes "snd (mount_stage W C) \<noteq> None"
  shows "\<forall>e\<in>set (fst (stages_after_reset W C)).
           \<not> later_stage_effect e \<and> (\<forall>a b. e = Copy a b \<longrightarrow> e \<in> set (fst (mount_stage W C)))"
proof (cases "index_throws C")
  case True
  then show ?thesis by (simp add: stages_stop_at_index)
next
  case False
  have p: "\<forall>e\<in>set (fst (paint_stage W C)). \<not> later_stage_effect e \<and> (\<forall>a b. e \<noteq> Copy a b)"
    by (simp add: paint_stage_def later_stage_effect_def)
  show ?thesis
    unfolding stages_stop_at_mount [OF False assms]
    using p lint_stage_effects [of C] mount_stage_effects [of W C] by auto
qed

lemma build_command_loaded:
  "import_map_error W = None \<Longrightarrow> \<not> no_build_scripts C \<Longrightarrow>
   build_command W C =
     (SetEnv ''NODE_ENV'' ''production'' # fst (reset_directories W C) @
      fst (stages_after_reset W C), snd (stages_after_reset W C))"
  by (simp add: build_command_def command_def andThen_def reset_directories_def)

lemma build_command_not_loaded:
  "import_map_error W = Some err \<Longrightarrow>
   build_command W C = ([SetEnv ''NODE_ENV'' ''production''], Some (Rejected err))"
  by (simp add: build_command_def andThen_def)

text \<open>
  C5, as amended. In a run that passes the test for build scripts, a mount worker whose
  command does not begin with the token \<^verbatim>\<open>mount\<close> throws the error of line 140 and does
  nothing else, and the command ends with an error. Where the import map loads and the index
  of lines 52 to 69 is built, that error is thrown in the mount stage, and it is the error of
  this worker when no mount worker before it fails. The trace of the run holds no effect of
  the transform dispatcher, of the join or of the bundle stage: no build command or plugin is
  run and the dispatcher writes no file. The only directories copied in the run are those
  that the mount stage has copied when it ends.
\<close>

theorem malformed_mount_aborts:
  assumes "\<not> no_build_scripts C" and "worker \<in> set (scripts C)" and "malformed_mount worker"
  shows "mount_worker W C worker = ([], Some (mount_error (fst worker))) \<and>
         snd (build_command W C) \<noteq> None \<and>
         (import_map_error W = None \<and> \<not> index_throws C \<longrightarrow>
            snd (build_command W C) = snd (mount_stage W C) \<and>
            (\<forall>pre post. relevantWorkers C = pre @ worker # post \<and>
               list_all (\<lambda>x. snd (mount_worker W C x) = None) pre \<longrightarrow>
               snd (build_command W C) = Some (mount_error (fst worker)))) \<and>
         (\<forall>e\<in>set (fst (build_command W C)). \<not> later_stage_effect e) \<and>
         (\<forall>a b. Copy a b \<in> set (fst (build_command W C)) \<longrightarrow>
                Copy a b \<in> set (fst (mount_stage W C)))"
proof -
  have w: "mount_worker W C worker = ([], Some (mount_error (fst worker)))"
    using assms(3) by (rule mount_worker_malformed)
  have t: "snd (mount_stage W C) \<noteq> None"
    using assms(2,3) by (rule mount_stage_throws)
  have r: "\<forall>e\<in>set (fst (reset_directories W C)).
             \<not> later_stage_effect e \<and> (\<forall>a b. e \<noteq> Copy a b)"
    by (auto simp: reset_directories_def later_stage_effect_def split: if_splits)
  have s: "\<not> later_stage_effect (SetEnv k v)" for k v
    by (simp add: later_stage_effect_def)
  show ?thesis
  proof (cases "import_map_error W")
    case (Some err)
    show ?thesis
      using w s by (simp add: build_command_not_loaded [OF Some] Some)
  next
    case None
    note b = build_command_loaded [OF None assms(1)]
    have 1: "snd (build_command W C) \<noteq> None"
      unfolding b using stages_throw [OF t] by simp
    have 2: "snd (build_command W C) = snd (mount_stage W C)" if "\<not> index_throws C"
      unfolding b by (simp add: stages_stop_at_mount [OF that t])
    have 3: "snd (build_command W C) = Some (mount_error (fst worker))"
      if "\<not> index_throws C" "relevantWorkers C = pre @ worker # post"
         "list_all (\<lambda>x. snd (mount_worker W C x) = None) pre" for pre post
    proof -
      have "snd (for_each (mount_worker W C) (relevantWorkers C)) = snd (mount_worker W C worker)"
        using that(2)
      proof (rule for_each_first_error)
        show "snd (mount_worker W C y) = None" if "y \<in> set pre" for y
          using that \<open>list_all (\<lambda>x. snd (mount_worker W C x) = None) pre\<close>
          by (simp add: list_all_iff)
        show "snd (mount_worker W C worker) \<noteq> None" by (simp add: w)
      qed
      then show ?thesis using 2 [OF that(1)] by (simp add: mount_stage_def w)
    qed
    have 4: "\<forall>e\<in>set (fst (build_command W C)). \<not> later_stage_effect e"
      unfolding b using r s stages_effects [OF t] by auto
    have 5: "Copy a b \<in> set (fst (mount_stage W C))"
      if "Copy a b \<in> set (fst (build_command W C))" for a b
      using that r stages_effects [OF t] unfolding b by auto
    from w 1 2 3 4 5 show ?thesis by blast
  qed
qed

theorem malformed_mount_aborts_witness:
  "\<not> no_build_scripts copy_then_bad_config \<and>
   (''mount:public'', \<lparr>cmd = ''cp -r public''\<rparr>) \<in> set (scripts copy_then_bad_config) \<and>
   malformed_mount (''mount:public'', \<lparr>cmd = ''cp -r public''\<rparr>) \<and>
   import_map_error sample_world = None \<and> \<not> index_throws copy_then_bad_config \<and>
   relevantWorkers copy_then_bad_config =
     [(''build:ts'', \<lparr>cmd = ''cat''\<rparr>), (''mount:src'', \<lparr>cmd = ''mount src --to /_dist_''\<rparr>)] @
     (''mount:public'', \<lparr>cmd = ''cp -r public''\<rparr>) # [] \<and>
   snd (build_command sample_world copy_then_bad_config) =
     Some (MountCommandError ''script[mount:public] must use the mount command'') \<and>
   filter later_stage_effect (fst (build_command sample_world copy_then_bad_config)) = []"
proof -
  let ?w = "(''mount:public'', \<lparr>cmd = ''cp -r public''\<rparr>)"
  let ?pre = "[(''build:ts'', \<lparr>cmd = ''cat''\<rparr>),
               (''mount:src'', \<lparr>cmd = ''mount src --to /_dist_''\<rparr>)]"
  have 1: "\<not> no_build_scripts copy_then_bad_config"
    by (simp add: copy_then_bad_config_def no_build_scripts_def startsWith_def)
  have 2: "?w \<in> set (scripts copy_then_bad_config)"
    by (simp add: copy_then_bad_config_def)
  have 3: "malformed_mount ?w"
    by (simp add: malformed_mount_def first_token_def is_space_def startsWith_def)
  have 4: "import_map_error sample_world = None" by (simp add: sample_world_def)
  have 5: "\<not> index_throws copy_then_bad_config"
    by (simp add: index_throws_def copy_then_bad_config_def startsWith_def declared_exts_def
          object_prototype_names_def)
  have 6: "relevantWorkers copy_then_bad_config = ?pre @ ?w # []"
    by (simp add: relevantWorkers_def copy_then_bad_config_def sample_config_def
          is_relevant_def startsWith_def)
  have 7: "list_all (\<lambda>x. snd (mount_worker sample_world copy_then_bad_config x) = None) ?pre"
    by (simp add: mount_worker_def startsWith_def split_ws_def is_space_def mount_target_def
          sample_world_def Let_def)
  note t = malformed_mount_aborts [OF 1 2 3, of sample_world]
  from t 4 5 6 7
  have "snd (build_command sample_world copy_then_bad_config) = Some (mount_error (fst ?w))"
    by blast
  then have 8: "snd (build_command sample_world copy_then_bad_config) =
      Some (MountCommandError ''script[mount:public] must use the mount command'')"
    by (simp add: mount_error_def)
  from t have "\<forall>e\<in>set (fst (build_command sample_world copy_then_bad_config)).
                 \<not> later_stage_effect e" by blast
  then have 9: "filter later_stage_effect (fst (build_command sample_world copy_then_bad_config)) = []"
    by (simp add: filter_empty_conv)
  from 1 2 3 4 5 6 8 9 show ?thesis by blast
qed

text \<open>
  C5 as it is stated fails where the project has no build script: the malformed mount
  command is never looked at, and the command returns without an error. It also fails where
  a mount worker declared before the malformed one mounts the source directory: the run ends
  with the error of line 140, but the source files are in the output directory by then.
\<close>

theorem malformed_mount_counterexample:
  "(''mount:public'', \<lparr>cmd = ''cp -r public''\<rparr>) \<in> set (scripts mount_only_config) \<and>
   malformed_mount (''mount:public'', \<lparr>cmd = ''cp -r public''\<rparr>) \<and>
   build_command sample_world mount_only_config =
     (SetEnv ''NODE_ENV'' ''production'' # no_build_scripts_report, None) \<and>
   (''mount:public'', \<lparr>cmd = ''cp -r public''\<rparr>) \<in> set (scripts copy_then_bad_config) \<and>
   build_command sample_world copy_then_bad_config =
     ([SetEnv ''NODE_ENV'' ''production'', Rimraf ''/app/build'', Mkdirp ''/app/build'',
       Paint [''build:ts'', ''mount:src'', ''mount:public''] ''./build'',
       Copy ''/app/src'' ''/app/build/_dist_'', Emit (WORKER_COMPLETE ''mount:src'' None)],
      Some (MountCommandError ''script[mount:public] must use the mount command''))"
  by (simp add: mount_only_config_def copy_then_bad_config_def sample_config_def
        sample_world_def build_command_def command_def no_build_scripts_def malformed_mount_def
        first_token_def is_space_def startsWith_def andThen_def reset_directories_def
        finalDirectoryLoc_def buildDirectoryLoc_def stages_after_reset_def index_stage_def
        index_throws_def declared_exts_def object_prototype_names_def paint_stage_def
        relevantWorkers_def is_relevant_def relDest_def lint_stage_def lint_worker_def
        mount_stage_def mount_worker_def split_ws_def mount_target_def mount_error_def Let_def)

text \<open>
  C9. A run that passes the test for build scripts begins by removing and recreating the
  final output directory, and the build directory when it is another one (as it is under
  bundling); the other stages follow. A malformed mount command then ends the run with an
  error, after the output directory has been removed.
\<close>

theorem output_reset_comes_first:
  assumes "\<not> no_build_scripts C"
  shows "fst (command W C) =
           [Rimraf (finalDirectoryLoc C), Mkdirp (finalDirectoryLoc C)] @
           (if finalDirectoryLoc C \<noteq> buildDirectoryLoc W C
            then [Rimraf (buildDirectoryLoc W C), Mkdirp (buildDirectoryLoc W C)] else []) @
           fst (stages_after_reset W C) \<and>
         (\<forall>worker\<in>set (scripts C). malformed_mount worker \<longrightarrow>
            snd (command W C) \<noteq> None \<and>
            Rimraf (finalDirectoryLoc C) \<in> set (fst (command W C)))"
proof -
  have a: "fst (command W C) = fst (reset_directories W C) @ fst (stages_after_reset W C)"
    using assms by (simp add: command_def andThen_def reset_directories_def)
  have b: "snd (command W C) = snd (stages_after_reset W C)"
    using assms by (simp add: command_def andThen_def reset_directories_def)
  have "snd (stages_after_reset W C) \<noteq> None"
    if "worker \<in> set (scripts C)" "malformed_mount worker" for worker
    using mount_stage_throws [OF that, of W] by (rule stages_throw)
  with a b show ?thesis by (auto simp: reset_directories_def)
qed

theorem output_reset_comes_first_witness:
  "\<not> no_build_scripts (bad_mount_config\<lparr>devOptions_bundle := True\<rparr>) \<and>
   malformed_mount (''mount:public'', \<lparr>cmd = ''cp -r public''\<rparr>) \<and>
   (\<exists>rest. fst (command sample_world (bad_mount_config\<lparr>devOptions_bundle := True\<rparr>)) =
      [Rimraf ''/app/build'', Mkdirp ''/app/build'', Rimraf ''/app/.build'',
       Mkdirp ''/app/.build''] @ rest) \<and>
   snd (command sample_world (bad_mount_config\<lparr>devOptions_bundle := True\<rparr>)) \<noteq> None"
  using output_reset_comes_first
    [of "bad_mount_config\<lparr>devOptions_bundle := True\<rparr>" sample_world]
  by (simp add: bad_mount_config_def sample_config_def sample_world_def no_build_scripts_def
        malformed_mount_def first_token_def is_space_def startsWith_def finalDirectoryLoc_def
        buildDirectoryLoc_def)

subsection \<open>The transform dispatcher\<close>

lemmas string_eval = startsWith_def endsWith_def file_ext_def extname_def lookup_truthy_def
  js_get_def replace_at_end_def replace_first_def

text \<open>
  C3. The dispatcher decides with \<^verbatim>\<open>id.includes\<close> whether a worker takes a file: the
  extension of the file has to follow a colon or a comma somewhere in the id, and need not end
  where an element of the list ends. The worker \<^verbatim>\<open>build:tsx\<close> declares the single
  extension \<^verbatim>\<open>tsx\<close>, and the index of lines 52 to 69 has no worker for \<^verbatim>\<open>ts\<close>; the
  dispatcher runs the worker on \<^verbatim>\<open>src/a.ts\<close> all the same and writes its output.
\<close>

theorem dispatch_matches_prefix_of_extension:
  "declared_exts ''build:tsx'' = [''tsx''] \<and>
   map_of (extToWorkerMap tsx_config) ''ts'' = None \<and>
   file_ext ''src/a.ts'' = ''ts'' \<and>
   worker_matches ''build:tsx'' ''src/a.ts'' \<and>
   process_file sample_world tsx_config (''build:tsx'', \<lparr>cmd = ''cat''\<rparr>) ''src/a.ts'' =
     ([Exec ''cat'' ''src/a.ts'', MkdirRec ''/app/build/_dist_'',
       WriteFile ''/app/build/_dist_/a.js''
         (CodeFile [Text (''export const x = 1;'' @ [CHR 0x0A] @ ''import z from '' @ [CHR 0x27]),
                    Specifier ''./b.js'', Text ([CHR 0x27] @ '';'')])], None)"
  by (simp add: declared_exts_def extToWorkerMap_def tsx_config_def sample_config_def
        push_worker_def worker_matches_def process_file_def build_file_def sample_world_def
        sample_stdout_def render_def outPath_of_def distDirectoryLoc_def buildDirectoryLoc_def
        sample_table_def write_output_def build_resolve_def resolve_relative_def andThen_def
        string_eval)

lemma for_each_includes:
  "x \<in> set xs \<Longrightarrow> snd (for_each body xs) = None \<Longrightarrow> e \<in> set (fst (body x)) \<Longrightarrow>
   e \<in> set (fst (for_each body xs))"
  by (induction xs) (auto simp: andThen_def split: option.splits)

lemma plugin_not_build: "startsWith ''plugin:'' wid \<Longrightarrow> \<not> startsWith ''build:'' wid"
  by (cases wid) (auto simp: startsWith_def)

lemma run_worker_finished:
  assumes "startsWith ''build:'' (fst worker) \<or> startsWith ''plugin:'' (fst worker)"
    and "snd (run_worker W C files worker) = None"
  shows "snd (for_each (process_file W C worker) files) = None"
    and "fst (run_worker W C files worker) =
           Emit (WORKER_UPDATE (fst worker) RUNNING) #
           fst (for_each (process_file W C worker) files) @
           [Emit (WORKER_COMPLETE (fst worker) None)]"
  using assms by (auto simp: run_worker_def andThen_def split: option.splits)

lemma plugin_failure_reported:
  assumes "startsWith ''plugin:'' wid" and "worker_matches wid f"
    and "plugin_module W (cmd w) = Some build" and "build f = Inl message"
  shows "Emit (WORKER_COMPLETE wid (Some (''['' @ wid @ ''] '' @ message)))
           \<in> set (fst (process_file W C (wid, w) f))"
  using assms plugin_not_build [OF assms(1)] by (simp add: process_file_def plugin_file_def)

text \<open>
  C10. When the loop over the files of a build or plugin worker finishes, the last thing the
  worker emits is \<open>WORKER_COMPLETE\<close> with no error, whatever happened to its files: for
  every file on which the plugin threw, a \<open>WORKER_COMPLETE\<close> with that error was emitted
  before it.
\<close>

theorem worker_complete_without_error_is_last:
  assumes "startsWith ''build:'' wid \<or> startsWith ''plugin:'' wid"
    and "snd (run_worker W C files (wid, w)) = None"
  shows "\<exists>es. fst (run_worker W C files (wid, w)) = es @ [Emit (WORKER_COMPLETE wid None)] \<and>
           (\<forall>f build message.
              startsWith ''plugin:'' wid \<and> f \<in> set files \<and> worker_matches wid f \<and>
              plugin_module W (cmd w) = Some build \<and> build f = Inl message \<longrightarrow>
              Emit (WORKER_COMPLETE wid (Some (''['' @ wid @ ''] '' @ message))) \<in> set es)"
proof -
  let ?loop = "for_each (process_file W C (wid, w)) files"
  let ?es = "Emit (WORKER_UPDATE wid RUNNING) # fst ?loop"
  have fin: "snd ?loop = None"
    using run_worker_finished(1) [of "(wid, w)" W C files] assms by simp
  have tr: "fst (run_worker W C files (wid, w)) = ?es @ [Emit (WORKER_COMPLETE wid None)]"
    using run_worker_finished(2) [of "(wid, w)" W C files] assms by simp
  have "Emit (WORKER_COMPLETE wid (Some (''['' @ wid @ ''] '' @ message))) \<in> set ?es"
    if "startsWith ''plugin:'' wid" "f \<in> set files" "worker_matches wid f"
       "plugin_module W (cmd w) = Some build" "build f = Inl message" for f build message
    using for_each_includes [OF that(2) fin plugin_failure_reported [OF that(1,3,4,5)]] by simp
  with tr show ?thesis by blast
qed

theorem worker_complete_without_error_is_last_witness:
  "startsWith ''plugin:'' ''plugin:js'' \<and>
   snd (run_worker sample_world sample_config [''src/a.ts'', ''src/bad.js'', ''src/c.js'']
          (''plugin:js'', \<lparr>cmd = ''./plugin.js''\<rparr>)) = None \<and>
   (\<exists>es. fst (run_worker sample_world sample_config [''src/a.ts'', ''src/bad.js'', ''src/c.js'']
                 (''plugin:js'', \<lparr>cmd = ''./plugin.js''\<rparr>)) =
           es @ [Emit (WORKER_COMPLETE ''plugin:js'' None)] \<and>
         Emit (WORKER_COMPLETE ''plugin:js'' (Some ''[plugin:js] boom'')) \<in> set es)"
proof -
  let ?files = "[''src/a.ts'', ''src/bad.js'', ''src/c.js'']"
  let ?w = "\<lparr>cmd = ''./plugin.js''\<rparr>"
  have p: "startsWith ''plugin:'' ''plugin:js''" by (simp add: startsWith_def)
  have m: "worker_matches ''plugin:js'' ''src/bad.js''"
    by (simp add: worker_matches_def string_eval)
  have b: "plugin_module sample_world (cmd ?w) =
             Some (\<lambda>f. if f = ''src/bad.js'' then Inl ''boom'' else Inr sample_result)"
    by (simp add: sample_world_def)
  have n: "snd (run_worker sample_world sample_config ?files (''plugin:js'', ?w)) = None"
    by (simp add: run_worker_def sample_config_def worker_matches_def process_file_def
          plugin_file_def sample_world_def sample_result_def outPath_of_def distDirectoryLoc_def
          buildDirectoryLoc_def sample_table_def write_output_def plugin_resolve_def
          resolve_relative_def andThen_def string_eval)
  from worker_complete_without_error_is_last [of "''plugin:js''" sample_world sample_config ?files ?w]
  obtain es where e: "fst (run_worker sample_world sample_config ?files (''plugin:js'', ?w)) =
                        es @ [Emit (WORKER_COMPLETE ''plugin:js'' None)]"
    and a: "\<forall>f build message.
              startsWith ''plugin:'' ''plugin:js'' \<and> f \<in> set ?files \<and>
              worker_matches ''plugin:js'' f \<and>
              plugin_module sample_world (cmd ?w) = Some build \<and> build f = Inl message \<longrightarrow>
              Emit (WORKER_COMPLETE ''plugin:js'' (Some (''['' @ ''plugin:js'' @ ''] '' @ message)))
                \<in> set es"
    using p n by blast
  have "Emit (WORKER_COMPLETE ''plugin:js'' (Some (''['' @ ''plugin:js'' @ ''] '' @ ''boom'')))
          \<in> set es"
    using a [rule_format, of "''src/bad.js''"
               "\<lambda>f. if f = ''src/bad.js'' then Inl ''boom'' else Inr sample_result" "''boom''"]
      p m b by simp
  then have "Emit (WORKER_COMPLETE ''plugin:js'' (Some ''[plugin:js] boom'')) \<in> set es" by simp
  with p n e show ?thesis by blast
qed

subsection \<open>The rewritten code\<close>

lemma transform_rel:
  "transformEsmImports c R = (es, Inr c') \<Longrightarrow>
   list_all2 (\<lambda>a b. case a of Text t \<Rightarrow> b = Text t
                     | Specifier s \<Rightarrow> \<exists>ev s'. R s = Inr (ev, s') \<and> b = Specifier s') c c'"
proof (induction c arbitrary: es c')
  case Nil
  then show ?case by simp
next
  case (Cons a c)
  show ?case
  proof (cases a)
    case (Text t)
    with Cons.prems obtain es0 c0 where
      "transformEsmImports c R = (es0, Inr c0)" "c' = Text t # c0"
      by (auto split: prod.splits sum.splits)
    with Cons.IH [of es0 c0] Text show ?thesis by simp
  next
    case (Specifier s)
    with Cons.prems obtain ev s' es0 c0 where
      "R s = Inr (ev, s')" "transformEsmImports c R = (es0, Inr c0)" "c' = Specifier s' # c0"
      by (auto split: prod.splits sum.splits)
    with Cons.IH [of es0 c0] Specifier show ?thesis by simp
  qed
qed

lemma transform_positions:
  assumes "transformEsmImports c R = (es, Inr c')"
  shows "length c' = length c"
    and "i < length c \<Longrightarrow> c ! i = Text t \<Longrightarrow> c' ! i = Text t"
    and "i < length c \<Longrightarrow> c ! i = Specifier s \<Longrightarrow> R s = Inr (ev, s') \<Longrightarrow>
         c' ! i = Specifier s'"
proof -
  note r = transform_rel [OF assms]
  show "length c' = length c" using r by (simp add: list_all2_lengthD)
  show "c' ! i = Text t" if "i < length c" "c ! i = Text t"
    using list_all2_nthD [OF r that(1)] that(2) by simp
  show "c' ! i = Specifier s'" if "i < length c" "c ! i = Specifier s" "R s = Inr (ev, s')"
    using list_all2_nthD [OF r that(1)] that(2,3) by simp
qed

lemma transform_events:
  assumes "\<And>s ev s'. R s = Inr (ev, s') \<Longrightarrow> \<forall>e\<in>set ev. P e"
  shows "\<forall>e\<in>set (fst (transformEsmImports c R)). P e"
proof (induction c)
  case Nil
  show ?case by simp
next
  case (Cons a c)
  then show ?case using assms
    by (cases a) (auto split: prod.splits sum.splits)
qed

lemma plugin_resolve_bare:
  "bare s \<Longrightarrow> plugin_resolve tbl f s = Inr ([], ''/web_modules/'' @ s @ ''.js'')"
  by (simp add: plugin_resolve_def bare_def)

lemma plugin_resolve_events:
  "plugin_resolve tbl f s = Inr (ev, s') \<Longrightarrow> \<forall>e\<in>set ev. \<forall>x. e \<noteq> MISSING_WEB_MODULE x"
  by (auto simp: plugin_resolve_def resolve_relative_def missing_extension_def Let_def
           split: option.splits sum.splits if_splits)

lemma write_output_rewritten:
  "extname outPath = ''.js'' \<Longrightarrow> transformEsmImports code R = (es, Inr code') \<Longrightarrow>
   write_output W outPath code R =
     (map Emit es @ [MkdirRec (path_dirname W outPath), WriteFile outPath (CodeFile code')],
      None)"
  by (simp add: write_output_def)

lemma write_output_events:
  assumes "\<And>s ev s'. R s = Inr (ev, s') \<Longrightarrow> \<forall>e\<in>set ev. \<forall>x. e \<noteq> MISSING_WEB_MODULE x"
  shows "Emit (MISSING_WEB_MODULE x) \<notin> set (fst (write_output W outPath code R))"
proof -
  have "\<forall>e\<in>set (fst (transformEsmImports code R)). \<forall>x. e \<noteq> MISSING_WEB_MODULE x"
    by (rule transform_events) (rule assms)
  then show ?thesis
    by (auto simp: write_output_def split: prod.splits sum.splits)
qed

lemma plugin_file_events:
  "Emit (MISSING_WEB_MODULE x) \<notin> set (fst (plugin_file W C wid c f))"
  using write_output_events [of "plugin_resolve (srcFileExtensionMapping W) f" x W,
          OF plugin_resolve_events]
  by (auto simp: plugin_file_def andThen_def split: option.splits sum.splits)

lemma outPath_of_import_map:
  "outPath_of (W\<lparr>dependencyImportMap := m\<rparr>) C f = outPath_of W C f"
  by (simp add: outPath_of_def distDirectoryLoc_def buildDirectoryLoc_def)

lemma write_output_import_map:
  "write_output (W\<lparr>dependencyImportMap := m\<rparr>) outPath code R = write_output W outPath code R"
  by (simp add: write_output_def)

lemma plugin_file_import_map:
  "plugin_file (W\<lparr>dependencyImportMap := m\<rparr>) C wid c f = plugin_file W C wid c f"
  by (simp add: plugin_file_def outPath_of_import_map write_output_import_map
        split: option.splits sum.splits)

lemma plugin_file_rewritten:
  assumes "plugin_module W c = Some build" and "build f = Inr result"
    and "outPath_of W C f = Inr outPath" and "extname outPath = ''.js''"
    and "transformEsmImports result (plugin_resolve (srcFileExtensionMapping W) f) =
           (es, Inr code')"
  shows "plugin_file W C wid c f =
           (PluginBuild c f # map Emit es @
            [MkdirRec (path_dirname W outPath), WriteFile outPath (CodeFile code')], None)"
  using assms by (simp add: plugin_file_def andThen_def write_output_rewritten)

text \<open>
  C8. What a plugin worker does with a file does not depend on the import map: with any
  other map in its place the effects are the same. No \<open>MISSING_WEB_MODULE\<close> is among them,
  and its resolver turns every specifier that begins with none of \<^verbatim>\<open>http\<close>, \<^verbatim>\<open>/\<close>,
  \<^verbatim>\<open>./\<close> and \<^verbatim>\<open>../\<close> into \<^verbatim>\<open>/web_modules/\<close>, the specifier and \<^verbatim>\<open>.js\<close>.
  The worker applies this resolver to the code it writes: where the plugin returns code for a
  file of the worker, the output path ends in \<^verbatim>\<open>.js\<close> and the rewrite returns, the
  worker calls the plugin, emits the events of the rewrite and writes the rewritten code, in
  which every such specifier of the plugin's code is replaced at its place by
  \<^verbatim>\<open>/web_modules/\<close>, the specifier and \<^verbatim>\<open>.js\<close>, and the text around the specifiers is
  as the plugin returned it.
\<close>

theorem plugin_worker_ignores_import_map:
  assumes "startsWith ''plugin:'' wid"
  shows "process_file (W\<lparr>dependencyImportMap := m\<rparr>) C (wid, w) f =
           process_file W C (wid, w) f \<and>
         (\<forall>x. Emit (MISSING_WEB_MODULE x) \<notin> set (fst (process_file W C (wid, w) f))) \<and>
         (\<forall>s. bare s \<longrightarrow>
               plugin_resolve (srcFileExtensionMapping W) f s =
                 Inr ([], ''/web_modules/'' @ s @ ''.js'')) \<and>
         (\<forall>build result outPath es code'.
            worker_matches wid f \<and> plugin_module W (cmd w) = Some build \<and>
            build f = Inr result \<and> outPath_of W C f = Inr outPath \<and>
            extname outPath = ''.js'' \<and>
            transformEsmImports result (plugin_resolve (srcFileExtensionMapping W) f) =
              (es, Inr code') \<longrightarrow>
            process_file W C (wid, w) f =
              (PluginBuild (cmd w) f # map Emit es @
               [MkdirRec (path_dirname W outPath), WriteFile outPath (CodeFile code')], None) \<and>
            length code' = length result \<and>
            (\<forall>i s. i < length result \<and> result ! i = Specifier s \<and> bare s \<longrightarrow>
                   code' ! i = Specifier (''/web_modules/'' @ s @ ''.js'')) \<and>
            (\<forall>i t. i < length result \<and> result ! i = Text t \<longrightarrow> code' ! i = Text t))"
proof -
  have nb: "\<not> startsWith ''build:'' wid" using assms by (rule plugin_not_build)
  have a: "process_file (W\<lparr>dependencyImportMap := m\<rparr>) C (wid, w) f =
           process_file W C (wid, w) f"
    using assms nb by (simp add: process_file_def plugin_file_import_map)
  have b: "Emit (MISSING_WEB_MODULE x) \<notin> set (fst (process_file W C (wid, w) f))" for x
    using assms nb plugin_file_events [of x W C wid "cmd w" f] by (simp add: process_file_def)
  have c: "plugin_resolve (srcFileExtensionMapping W) f s =
             Inr ([], ''/web_modules/'' @ s @ ''.js'')" if "bare s" for s
    using that by (rule plugin_resolve_bare)
  have d: "process_file W C (wid, w) f =
              (PluginBuild (cmd w) f # map Emit es @
               [MkdirRec (path_dirname W outPath), WriteFile outPath (CodeFile code')], None) \<and>
            length code' = length result \<and>
            (\<forall>i s. i < length result \<and> result ! i = Specifier s \<and> bare s \<longrightarrow>
                   code' ! i = Specifier (''/web_modules/'' @ s @ ''.js'')) \<and>
            (\<forall>i t. i < length result \<and> result ! i = Text t \<longrightarrow> code' ! i = Text t)"
    if h: "worker_matches wid f" "plugin_module W (cmd w) = Some build" "build f = Inr result"
      "outPath_of W C f = Inr outPath" "extname outPath = ''.js''"
      "transformEsmImports result (plugin_resolve (srcFileExtensionMapping W) f) =
         (es, Inr code')"
    for build result outPath es code'
  proof -
    have 1: "process_file W C (wid, w) f =
              (PluginBuild (cmd w) f # map Emit es @
               [MkdirRec (path_dirname W outPath), WriteFile outPath (CodeFile code')], None)"
      using assms nb h(1) plugin_file_rewritten [OF h(2,3,4,5,6)]
      by (simp add: process_file_def)
    have 2: "length code' = length result" using h(6) by (rule transform_positions(1))
    have 3: "code' ! i = Specifier (''/web_modules/'' @ s @ ''.js'')"
      if "i < length result" "result ! i = Specifier s" "bare s" for i s
      using h(6) that(1,2) c [OF that(3)] by (rule transform_positions(3))
    have 4: "code' ! i = Text t" if "i < length result" "result ! i = Text t" for i t
      using h(6) that by (rule transform_positions(2))
    from 1 2 3 4 show ?thesis by blast
  qed
  show ?thesis
  proof (intro conjI allI impI)
    show "process_file (W\<lparr>dependencyImportMap := m\<rparr>) C (wid, w) f =
           process_file W C (wid, w) f" by (rule a)
    show "Emit (MISSING_WEB_MODULE x) \<notin> set (fst (process_file W C (wid, w) f))" for x
      by (rule b)
    show "plugin_resolve (srcFileExtensionMapping W) f s =
             Inr ([], ''/web_modules/'' @ s @ ''.js'')" if "bare s" for s
      using that by (rule c)
  next
    fix build result outPath es code'
    assume h: "worker_matches wid f \<and> plugin_module W (cmd w) = Some build \<and>
            build f = Inr result \<and> outPath_of W C f = Inr outPath \<and>
            extname outPath = ''.js'' \<and>
            transformEsmImports result (plugin_resolve (srcFileExtensionMapping W) f) =
              (es, Inr code')"
    note d' = d [of build result outPath es code']
    show "process_file W C (wid, w) f =
              (PluginBuild (cmd w) f # map Emit es @
               [MkdirRec (path_dirname W outPath), WriteFile outPath (CodeFile code')], None)"
      using d' h by simp
    show "length code' = length result" using d' h by simp
    show "code' ! i = Specifier (''/web_modules/'' @ s @ ''.js'')"
      if "i < length result \<and> result ! i = Specifier s \<and> bare s" for i s
      using d' h that by simp
    show "code' ! i = Text t" if "i < length result \<and> result ! i = Text t" for i t
      using d' h that by simp
  qed
qed

theorem plugin_worker_ignores_import_map_witness:
  "startsWith ''plugin:'' ''plugin:js'' \<and>
   map_of (dependencyImportMap sample_world) ''react'' = Some ''./react.js'' \<and>
   bare ''react'' \<and>
   process_file (sample_world\<lparr>dependencyImportMap := []\<rparr>) sample_config
     (''plugin:js'', \<lparr>cmd = ''./plugin.js''\<rparr>) ''src/c.js'' =
   process_file sample_world sample_config (''plugin:js'', \<lparr>cmd = ''./plugin.js''\<rparr>) ''src/c.js'' \<and>
   worker_matches ''plugin:js'' ''src/c.js'' \<and>
   outPath_of sample_world sample_config ''src/c.js'' = Inr ''/app/build/_dist_/c.js'' \<and>
   process_file sample_world sample_config (''plugin:js'', \<lparr>cmd = ''./plugin.js''\<rparr>) ''src/c.js'' =
     ([PluginBuild ''./plugin.js'' ''src/c.js'', MkdirRec ''/app/build/_dist_'',
       WriteFile ''/app/build/_dist_/c.js''
         (CodeFile [Text (''import React from '' @ [CHR 0x27]),
                    Specifier ''/web_modules/react.js'', Text ([CHR 0x27] @ '';'')])], None)"
proof -
  let ?w = "\<lparr>cmd = ''./plugin.js''\<rparr>"
  let ?build = "\<lambda>f. if f = ''src/bad.js'' then Inl ''boom'' else Inr sample_result"
  let ?code = "[Text (''import React from '' @ [CHR 0x27]),
                Specifier ''/web_modules/react.js'', Text ([CHR 0x27] @ '';'')]"
  have p: "startsWith ''plugin:'' ''plugin:js''" by (simp add: startsWith_def)
  have r: "map_of (dependencyImportMap sample_world) ''react'' = Some ''./react.js''"
    by (simp add: sample_world_def sample_imports_def)
  have b: "bare ''react''" by (simp add: bare_def startsWith_def)
  have m: "worker_matches ''plugin:js'' ''src/c.js''"
    by (simp add: worker_matches_def string_eval)
  have pm: "plugin_module sample_world (cmd ?w) = Some ?build" by (simp add: sample_world_def)
  have bf: "?build ''src/c.js'' = Inr sample_result" by simp
  have o: "outPath_of sample_world sample_config ''src/c.js'' = Inr ''/app/build/_dist_/c.js''"
    by (simp add: outPath_of_def sample_world_def sample_config_def sample_table_def
          distDirectoryLoc_def buildDirectoryLoc_def string_eval)
  have e: "extname ''/app/build/_dist_/c.js'' = ''.js''" by (simp add: extname_def)
  have t: "transformEsmImports sample_result
             (plugin_resolve (srcFileExtensionMapping sample_world) ''src/c.js'') = ([], Inr ?code)"
    by (simp add: sample_result_def plugin_resolve_def startsWith_def)
  note main = plugin_worker_ignores_import_map
    [where wid = "''plugin:js''" and W = sample_world and m = "[]" and C = sample_config
       and w = "?w" and f = "''src/c.js''", OF p]
  from main have 1: "process_file (sample_world\<lparr>dependencyImportMap := []\<rparr>) sample_config
     (''plugin:js'', ?w) ''src/c.js'' =
     process_file sample_world sample_config (''plugin:js'', ?w) ''src/c.js''" by (rule conjunct1)
  from main have "\<forall>build result outPath es code'.
            worker_matches ''plugin:js'' ''src/c.js'' \<and>
            plugin_module sample_world (cmd ?w) = Some build \<and>
            build ''src/c.js'' = Inr result \<and>
            outPath_of sample_world sample_config ''src/c.js'' = Inr outPath \<and>
            extname outPath = ''.js'' \<and>
            transformEsmImports result
              (plugin_resolve (srcFileExtensionMapping sample_world) ''src/c.js'') =
              (es, Inr code') \<longrightarrow>
            process_file sample_world sample_config (''plugin:js'', ?w) ''src/c.js'' =
              (PluginBuild (cmd ?w) ''src/c.js'' # map Emit es @
               [MkdirRec (path_dirname sample_world outPath), WriteFile outPath (CodeFile code')],
               None) \<and>
            length code' = length result \<and>
            (\<forall>i s. i < length result \<and> result ! i = Specifier s \<and> bare s \<longrightarrow>
                   code' ! i = Specifier (''/web_modules/'' @ s @ ''.js'')) \<and>
            (\<forall>i t. i < length result \<and> result ! i = Text t \<longrightarrow> code' ! i = Text t)"
    by (elim conjE) assumption
  from this [rule_format, of ?build sample_result "''/app/build/_dist_/c.js''" "[]" ?code]
    m pm bf o e t
  have "process_file sample_world sample_config (''plugin:js'', ?w) ''src/c.js'' =
              (PluginBuild (cmd ?w) ''src/c.js'' # map Emit [] @
               [MkdirRec (path_dirname sample_world ''/app/build/_dist_/c.js''),
                WriteFile ''/app/build/_dist_/c.js'' (CodeFile ?code)], None)"
    by simp
  then have 2: "process_file sample_world sample_config (''plugin:js'', ?w) ''src/c.js'' =
     ([PluginBuild ''./plugin.js'' ''src/c.js'', MkdirRec ''/app/build/_dist_'',
       WriteFile ''/app/build/_dist_/c.js'' (CodeFile ?code)], None)"
    by (simp add: sample_world_def)
  from p r b 1 m o 2 show ?thesis by simp
qed

subsection \<open>The specifier resolvers\<close>

lemma build_resolve_count:
  "build_resolve tbl imports f s0 = Inr (ev, s') \<Longrightarrow>
   count_list ev (MISSING_WEB_MODULE s) =
     (if s0 = s \<and> bare s \<and> lookup_truthy imports s = None then 1 else 0)"
  by (auto simp: build_resolve_def resolve_relative_def missing_extension_def bare_def Let_def
           split: option.splits sum.splits if_splits)

lemma build_events_count:
  "transformEsmImports c (build_resolve tbl imports f) = (es, Inr c') \<Longrightarrow>
   count_list es (MISSING_WEB_MODULE s) =
     (if bare s \<and> lookup_truthy imports s = None then count_list c (Specifier s) else 0)"
proof (induction c arbitrary: es c')
  case Nil
  then show ?case by simp
next
  case (Cons a c)
  show ?case
  proof (cases a)
    case (Text t)
    with Cons.prems obtain c0 where
      "transformEsmImports c (build_resolve tbl imports f) = (es, Inr c0)"
      by (auto split: prod.splits sum.splits)
    with Cons.IH [of es c0] Text show ?thesis by simp
  next
    case (Specifier s0)
    with Cons.prems obtain ev s' es0 c0 where
      r: "build_resolve tbl imports f s0 = Inr (ev, s')"
      and t: "transformEsmImports c (build_resolve tbl imports f) = (es0, Inr c0)"
      and e: "es = ev @ es0"
      by (auto split: prod.splits sum.splits)
    show ?thesis
      unfolding e Specifier
      using build_resolve_count [OF r, of s] Cons.IH [OF t] by auto
  qed
qed

lemma lookup_truthy_own:
  "map_of obj k = Some v \<Longrightarrow> v \<noteq> [] \<Longrightarrow> lookup_truthy obj k = Some (Own v)"
  by (simp add: lookup_truthy_def js_get_def)

lemma lookup_truthy_absent:
  "(map_of obj k = None \<and> k \<notin> set object_prototype_names) \<or> map_of obj k = Some [] \<Longrightarrow>
   lookup_truthy obj k = None"
  by (auto simp: lookup_truthy_def js_get_def)

lemma build_resolve_mapped:
  "bare s \<Longrightarrow> map_of imports s = Some mapped \<Longrightarrow> mapped \<noteq> [] \<Longrightarrow>
   build_resolve tbl imports f s = Inr ([], ''/web_modules/'' @ mapped)"
  by (simp add: build_resolve_def bare_def lookup_truthy_own js_text_def)

lemma build_resolve_absent:
  "bare s \<Longrightarrow>
   (map_of imports s = None \<and> s \<notin> set object_prototype_names) \<or> map_of imports s = Some [] \<Longrightarrow>
   build_resolve tbl imports f s = Inr ([MISSING_WEB_MODULE s], ''/web_modules/'' @ s @ ''.js'')"
  by (simp add: build_resolve_def bare_def lookup_truthy_absent)

lemma build_file_rewritten:
  assumes "execa_command W c f = Inr (stdout, stderr)" and "render stdout \<noteq> []"
    and "outPath_of W C f = Inr outPath" and "extname outPath = ''.js''"
    and "transformEsmImports stdout
           (build_resolve (srcFileExtensionMapping W) (dependencyImportMap W) f) =
           (es, Inr code')"
  shows "build_file W C c f =
           (Exec c f # (if stderr \<noteq> [] then [Emit (CONSOLE ''error'' stderr)] else []) @
            map Emit es @
            [MkdirRec (path_dirname W outPath), WriteFile outPath (CodeFile code')], None)"
  using assms by (simp add: build_file_def andThen_def write_output_rewritten)

text \<open>
  C1, as amended. A specifier that begins with none of \<^verbatim>\<open>http\<close>, \<^verbatim>\<open>/\<close>, \<^verbatim>\<open>./\<close>
  and \<^verbatim>\<open>../\<close> is resolved for a build worker as follows. If the import map has an entry
  for it that is not the empty string, the result is \<^verbatim>\<open>/web_modules/\<close> and that entry,
  and no event is emitted. If the map has no entry for it and it is not the name of a
  property that every object inherits, or if its entry is the empty string, the result is
  \<^verbatim>\<open>/web_modules/\<close>, the specifier and \<^verbatim>\<open>.js\<close>, and the one event of the call is
  \<open>MISSING_WEB_MODULE\<close> for it. The build worker applies this to the code it writes: where
  its command prints code for a file of the worker, the output path ends in \<^verbatim>\<open>.js\<close> and
  the rewrite returns, the worker runs the command, emits the events of the rewrite and writes
  the rewritten code, in which every occurrence of the specifier is replaced at its place by
  that result; \<open>MISSING_WEB_MODULE\<close> for the specifier is emitted never in the first case
  and once for each occurrence in the second.
\<close>

theorem build_worker_bare_specifier:
  assumes "bare s"
  shows "(\<forall>mapped. map_of imports s = Some mapped \<and> mapped \<noteq> [] \<longrightarrow>
            build_resolve tbl imports f s = Inr ([], ''/web_modules/'' @ mapped)) \<and>
         ((map_of imports s = None \<and> s \<notin> set object_prototype_names) \<or>
          map_of imports s = Some [] \<longrightarrow>
            build_resolve tbl imports f s =
              Inr ([MISSING_WEB_MODULE s], ''/web_modules/'' @ s @ ''.js'')) \<and>
         (\<forall>W C wid w stdout stderr outPath es code'.
            srcFileExtensionMapping W = tbl \<and> dependencyImportMap W = imports \<and>
            startsWith ''build:'' wid \<and> worker_matches wid f \<and>
            execa_command W (cmd w) f = Inr (stdout, stderr) \<and> render stdout \<noteq> [] \<and>
            outPath_of W C f = Inr outPath \<and> extname outPath = ''.js'' \<and>
            transformEsmImports stdout (build_resolve tbl imports f) = (es, Inr code') \<longrightarrow>
            process_file W C (wid, w) f =
              (Exec (cmd w) f #
               (if stderr \<noteq> [] then [Emit (CONSOLE ''error'' stderr)] else []) @
               map Emit es @
               [MkdirRec (path_dirname W outPath), WriteFile outPath (CodeFile code')], None) \<and>
            length code' = length stdout \<and>
            (\<forall>mapped. map_of imports s = Some mapped \<and> mapped \<noteq> [] \<longrightarrow>
               (\<forall>i. i < length stdout \<and> stdout ! i = Specifier s \<longrightarrow>
                    code' ! i = Specifier (''/web_modules/'' @ mapped)) \<and>
               count_list es (MISSING_WEB_MODULE s) = 0) \<and>
            ((map_of imports s = None \<and> s \<notin> set object_prototype_names) \<or>
             map_of imports s = Some [] \<longrightarrow>
               (\<forall>i. i < length stdout \<and> stdout ! i = Specifier s \<longrightarrow>
                    code' ! i = Specifier (''/web_modules/'' @ s @ ''.js'')) \<and>
               count_list es (MISSING_WEB_MODULE s) = count_list stdout (Specifier s)))"
proof (intro conjI allI impI)
  fix mapped
  assume "map_of imports s = Some mapped \<and> mapped \<noteq> []"
  then show "build_resolve tbl imports f s = Inr ([], ''/web_modules/'' @ mapped)"
    using assms by (simp add: build_resolve_mapped)
next
  assume "(map_of imports s = None \<and> s \<notin> set object_prototype_names) \<or>
          map_of imports s = Some []"
  then show "build_resolve tbl imports f s =
               Inr ([MISSING_WEB_MODULE s], ''/web_modules/'' @ s @ ''.js'')"
    using assms by (rule build_resolve_absent [rotated])
next
  fix W C wid and w :: DevScript and stdout stderr outPath es code'
  assume h: "srcFileExtensionMapping W = tbl \<and> dependencyImportMap W = imports \<and>
            startsWith ''build:'' wid \<and> worker_matches wid f \<and>
            execa_command W (cmd w) f = Inr (stdout, stderr) \<and> render stdout \<noteq> [] \<and>
            outPath_of W C f = Inr outPath \<and> extname outPath = ''.js'' \<and>
            transformEsmImports stdout (build_resolve tbl imports f) = (es, Inr code')"
  then have t: "transformEsmImports stdout (build_resolve tbl imports f) = (es, Inr code')"
    by simp
  from h have t': "transformEsmImports stdout
           (build_resolve (srcFileExtensionMapping W) (dependencyImportMap W) f) =
           (es, Inr code')" by simp
  from h have x: "execa_command W (cmd w) f = Inr (stdout, stderr)" and n: "render stdout \<noteq> []"
    and o: "outPath_of W C f = Inr outPath" and e: "extname outPath = ''.js''"
    by simp_all
  have "build_file W C (cmd w) f =
           (Exec (cmd w) f # (if stderr \<noteq> [] then [Emit (CONSOLE ''error'' stderr)] else []) @
            map Emit es @
            [MkdirRec (path_dirname W outPath), WriteFile outPath (CodeFile code')], None)"
    using x n o e t' by (rule build_file_rewritten)
  with h show "process_file W C (wid, w) f =
              (Exec (cmd w) f #
               (if stderr \<noteq> [] then [Emit (CONSOLE ''error'' stderr)] else []) @
               map Emit es @
               [MkdirRec (path_dirname W outPath), WriteFile outPath (CodeFile code')], None)"
    by (simp add: process_file_def)
  show "length code' = length stdout" using t by (rule transform_positions(1))
  {
    fix mapped
    assume m: "map_of imports s = Some mapped \<and> mapped \<noteq> []"
    then have r: "build_resolve tbl imports f s = Inr ([], ''/web_modules/'' @ mapped)"
      using assms by (simp add: build_resolve_mapped)
    show "count_list es (MISSING_WEB_MODULE s) = 0"
      using build_events_count [OF t, of s] m by (simp add: lookup_truthy_own)
    fix i
    assume "i < length stdout \<and> stdout ! i = Specifier s"
    then show "code' ! i = Specifier (''/web_modules/'' @ mapped)"
      using transform_positions(3) [OF t _ _ r] by simp
  }
  {
    assume a: "(map_of imports s = None \<and> s \<notin> set object_prototype_names) \<or>
               map_of imports s = Some []"
    then have r: "build_resolve tbl imports f s =
               Inr ([MISSING_WEB_MODULE s], ''/web_modules/'' @ s @ ''.js'')"
      using assms by (rule build_resolve_absent [rotated])
    show "count_list es (MISSING_WEB_MODULE s) = count_list stdout (Specifier s)"
      using build_events_count [OF t, of s] assms lookup_truthy_absent [OF a] by simp
    fix i
    assume "i < length stdout \<and> stdout ! i = Specifier s"
    then show "code' ! i = Specifier (''/web_modules/'' @ s @ ''.js'')"
      using transform_positions(3) [OF t _ _ r] by simp
  }
qed

theorem build_worker_bare_specifier_witness:
  "bare ''react'' \<and> map_of sample_imports ''react'' = Some ''./react.js'' \<and>
   bare ''vue'' \<and> map_of sample_imports ''vue'' = None \<and>
   ''vue'' \<notin> set object_prototype_names \<and>
   build_resolve sample_table sample_imports ''src/a.ts'' ''vue'' =
     Inr ([MISSING_WEB_MODULE ''vue''], ''/web_modules/vue.js'') \<and>
   process_file bare_world sample_config
     (''build:ts'', \<lparr>cmd = ''cat''\<rparr>) ''src/a.ts'' =
     ([Exec ''cat'' ''src/a.ts'', Emit (MISSING_WEB_MODULE ''vue''),
       Emit (MISSING_WEB_MODULE ''vue''), MkdirRec ''/app/build/_dist_'',
       WriteFile ''/app/build/_dist_/a.js''
         (CodeFile
            [Text (''import React from '' @ [CHR 0x27]), Specifier ''/web_modules/./react.js'',
             Text ([CHR 0x27] @ '';'' @ [CHR 0x0A] @ ''import Vue from '' @ [CHR 0x27]),
             Specifier ''/web_modules/vue.js'',
             Text ([CHR 0x27] @ '';'' @ [CHR 0x0A] @ ''export * from '' @ [CHR 0x27]),
             Specifier ''/web_modules/vue.js'', Text ([CHR 0x27] @ '';'')])], None)"
proof -
  let ?W = "bare_world"
  let ?w = "\<lparr>cmd = ''cat''\<rparr>"
  let ?es = "[MISSING_WEB_MODULE ''vue'', MISSING_WEB_MODULE ''vue'']"
  let ?code = "[Text (''import React from '' @ [CHR 0x27]), Specifier ''/web_modules/./react.js'',
             Text ([CHR 0x27] @ '';'' @ [CHR 0x0A] @ ''import Vue from '' @ [CHR 0x27]),
             Specifier ''/web_modules/vue.js'',
             Text ([CHR 0x27] @ '';'' @ [CHR 0x0A] @ ''export * from '' @ [CHR 0x27]),
             Specifier ''/web_modules/vue.js'', Text ([CHR 0x27] @ '';'')]"
  have b: "bare ''react''" "bare ''vue''" by (simp_all add: bare_def startsWith_def)
  have m: "map_of sample_imports ''react'' = Some ''./react.js''"
    "map_of sample_imports ''vue'' = None" "''vue'' \<notin> set object_prototype_names"
    by (simp_all add: sample_imports_def object_prototype_names_def)
  have w: "srcFileExtensionMapping ?W = sample_table" "dependencyImportMap ?W = sample_imports"
    "startsWith ''build:'' ''build:ts''" "worker_matches ''build:ts'' ''src/a.ts''"
    "execa_command ?W (cmd ?w) ''src/a.ts'' = Inr (sample_bare, [])"
    "render sample_bare \<noteq> []"
    by (simp_all add: bare_world_def sample_world_def worker_matches_def sample_bare_def
          render_def string_eval)
  have o: "outPath_of ?W sample_config ''src/a.ts'' = Inr ''/app/build/_dist_/a.js''"
    by (simp add: outPath_of_def bare_world_def sample_world_def sample_config_def
          sample_table_def distDirectoryLoc_def buildDirectoryLoc_def string_eval)
  have e: "extname ''/app/build/_dist_/a.js'' = ''.js''" by (simp add: extname_def)
  have t: "transformEsmImports sample_bare (build_resolve sample_table sample_imports ''src/a.ts'') =
             (?es, Inr ?code)"
    by (simp add: sample_bare_def build_resolve_def sample_imports_def js_text_def
          object_prototype_names_def string_eval)
  note react = build_worker_bare_specifier
    [of "''react''" sample_imports sample_table "''src/a.ts''", OF b(1)]
  note vue = build_worker_bare_specifier
    [of "''vue''" sample_imports sample_table "''src/a.ts''", OF b(2)]
  from vue m(2,3)
  have 1: "build_resolve sample_table sample_imports ''src/a.ts'' ''vue'' =
             Inr ([MISSING_WEB_MODULE ''vue''], ''/web_modules/vue.js'')"
    by simp
  from react have "\<forall>W C wid w stdout stderr outPath es code'.
            srcFileExtensionMapping W = sample_table \<and> dependencyImportMap W = sample_imports \<and>
            startsWith ''build:'' wid \<and> worker_matches wid ''src/a.ts'' \<and>
            execa_command W (cmd w) ''src/a.ts'' = Inr (stdout, stderr) \<and> render stdout \<noteq> [] \<and>
            outPath_of W C ''src/a.ts'' = Inr outPath \<and> extname outPath = ''.js'' \<and>
            transformEsmImports stdout (build_resolve sample_table sample_imports ''src/a.ts'') =
              (es, Inr code') \<longrightarrow>
            process_file W C (wid, w) ''src/a.ts'' =
              (Exec (cmd w) ''src/a.ts'' #
               (if stderr \<noteq> [] then [Emit (CONSOLE ''error'' stderr)] else []) @
               map Emit es @
               [MkdirRec (path_dirname W outPath), WriteFile outPath (CodeFile code')], None) \<and>
            length code' = length stdout \<and>
            (\<forall>mapped. map_of sample_imports ''react'' = Some mapped \<and> mapped \<noteq> [] \<longrightarrow>
               (\<forall>i. i < length stdout \<and> stdout ! i = Specifier ''react'' \<longrightarrow>
                    code' ! i = Specifier (''/web_modules/'' @ mapped)) \<and>
               count_list es (MISSING_WEB_MODULE ''react'') = 0) \<and>
            ((map_of sample_imports ''react'' = None \<and> ''react'' \<notin> set object_prototype_names) \<or>
             map_of sample_imports ''react'' = Some [] \<longrightarrow>
               (\<forall>i. i < length stdout \<and> stdout ! i = Specifier ''react'' \<longrightarrow>
                    code' ! i = Specifier (''/web_modules/'' @ ''react'' @ ''.js'')) \<and>
               count_list es (MISSING_WEB_MODULE ''react'') = count_list stdout (Specifier ''react''))"
    by (elim conjE) assumption
  from this [rule_format, of ?W "''build:ts''" ?w sample_bare "[]" sample_config
               "''/app/build/_dist_/a.js''" ?es ?code] w o e t
  have "process_file ?W sample_config (''build:ts'', ?w) ''src/a.ts'' =
          (Exec (cmd ?w) ''src/a.ts'' # (if [] \<noteq> ([]::string) then [Emit (CONSOLE ''error'' [])] else []) @
           map Emit ?es @
           [MkdirRec (path_dirname ?W ''/app/build/_dist_/a.js''),
            WriteFile ''/app/build/_dist_/a.js'' (CodeFile ?code)], None)"
    by simp
  then have 2: "process_file ?W sample_config (''build:ts'', ?w) ''src/a.ts'' =
     ([Exec ''cat'' ''src/a.ts'', Emit (MISSING_WEB_MODULE ''vue''),
       Emit (MISSING_WEB_MODULE ''vue''), MkdirRec ''/app/build/_dist_'',
       WriteFile ''/app/build/_dist_/a.js'' (CodeFile ?code)], None)"
    by (simp add: bare_world_def sample_world_def)
  from b m 1 2 show ?thesis by simp
qed

text \<open>
  C1 as it is stated fails for plugin workers, for specifiers that begin with
  \<^verbatim>\<open>http\<close> and for the names of inherited properties. The import map has the entry
  \<^verbatim>\<open>./react.js\<close> for \<^verbatim>\<open>react\<close>; the plugin worker writes
  \<^verbatim>\<open>/web_modules/react.js\<close> for it. The map has an entry for \<^verbatim>\<open>http-proxy\<close>, which
  begins with no URL scheme; the resolver of the build worker returns it as it is. The map
  has no entry for \<^verbatim>\<open>constructor\<close>; the read of line 218 finds the function that every
  object inherits under that name, and the resolver of the build worker returns the text of
  that function after \<^verbatim>\<open>/web_modules/\<close> and emits no event.
\<close>

theorem bare_specifier_counterexample:
  "map_of (dependencyImportMap sample_world) ''react'' = Some ''./react.js'' \<and>
   process_file sample_world sample_config (''plugin:js'', \<lparr>cmd = ''./plugin.js''\<rparr>)
     ''src/c.js'' =
     ([PluginBuild ''./plugin.js'' ''src/c.js'', MkdirRec ''/app/build/_dist_'',
       WriteFile ''/app/build/_dist_/c.js''
         (CodeFile [Text (''import React from '' @ [CHR 0x27]),
                    Specifier ''/web_modules/react.js'', Text ([CHR 0x27] @ '';'')])], None) \<and>
   map_of (dependencyImportMap sample_world) ''http-proxy'' = Some ''./http-proxy.js'' \<and>
   build_resolve (srcFileExtensionMapping sample_world) (dependencyImportMap sample_world)
     ''src/a.ts'' ''http-proxy'' = Inr ([], ''http-proxy'') \<and>
   map_of (dependencyImportMap sample_world) ''constructor'' = None \<and>
   build_resolve (srcFileExtensionMapping sample_world) (dependencyImportMap sample_world)
     ''src/a.ts'' ''constructor'' =
     Inr ([], ''/web_modules/function Object() { [native code] }'')"
  by (simp add: sample_config_def worker_matches_def process_file_def plugin_file_def
        sample_world_def sample_result_def outPath_of_def distDirectoryLoc_def
        buildDirectoryLoc_def sample_table_def sample_imports_def write_output_def
        build_resolve_def plugin_resolve_def resolve_relative_def andThen_def js_text_def
        object_prototype_names_def string_eval)

text \<open>
  C4. The resolvers find the extension of a relative specifier with \<^verbatim>\<open>path.extname\<close>,
  which skips trailing slashes, and replace it with a pattern anchored at the end of the
  specifier, which does not: \<^verbatim>\<open>./a.ts/\<close> has the extension \<^verbatim>\<open>ts\<close>, which the table
  maps to \<^verbatim>\<open>js\<close>, and is returned with its extension as it was, where \<^verbatim>\<open>./a.ts\<close>
  becomes \<^verbatim>\<open>./a.js\<close>. They also read the table with \<^verbatim>\<open>table[ext]\<close>, which finds the
  properties that every object inherits: the table has no entry for \<^verbatim>\<open>toString\<close>, and
  \<^verbatim>\<open>./a.toString\<close> becomes \<^verbatim>\<open>./a.[object Undefined]\<close> where an unmapped extension is
  to pass through unchanged.
\<close>

theorem trailing_slash_keeps_extension:
  "startsWith ''./'' ''./a.ts/'' \<and> file_ext ''./a.ts/'' = ''ts'' \<and>
   map_of sample_table ''ts'' = Some ''js'' \<and>
   build_resolve sample_table sample_imports ''src/a.ts'' ''./a.ts/'' = Inr ([], ''./a.ts/'') \<and>
   plugin_resolve sample_table ''src/a.ts'' ''./a.ts/'' = Inr ([], ''./a.ts/'') \<and>
   build_resolve sample_table sample_imports ''src/a.ts'' ''./a.ts'' = Inr ([], ''./a.js'') \<and>
   startsWith ''./'' ''./a.toString'' \<and> file_ext ''./a.toString'' = ''toString'' \<and>
   map_of sample_table ''toString'' = None \<and>
   build_resolve sample_table sample_imports ''src/a.ts'' ''./a.toString'' =
     Inr ([], ''./a.[object Undefined]'') \<and>
   plugin_resolve sample_table ''src/a.ts'' ''./a.toString'' =
     Inr ([], ''./a.[object Undefined]'')"
  by (simp add: build_resolve_def plugin_resolve_def resolve_relative_def sample_table_def
        replacer_text_def object_prototype_names_def string_eval)

subsection \<open>Rewriting twice\<close>








lemma resolve_relative_missing:
  "file_ext s = [] \<Longrightarrow> resolve_relative tbl f s = Inr ([missing_extension f s], s)"
  by (simp add: resolve_relative_def)













subsection \<open>The manifest for the bundler\<close>

lemma map_of_written:
  "map_of (map (map_prod id written) entries) k = map_option written (map_of entries k)"
  by (induction entries) auto

text \<open>
  C7, as amended. For a parsed project manifest whose \<^verbatim>\<open>devDependencies\<close> is missing, an
  object or a falsy value, the bundle stage copies the build directory and then writes the
  manifest and the Babel configuration. The manifest written has no \<^verbatim>\<open>name\<close>; every
  other field but \<^verbatim>\<open>devDependencies\<close> is the field of the parsed manifest as
  \<^verbatim>\<open>JSON.stringify\<close> writes it; and \<^verbatim>\<open>devDependencies\<close> is an object whose entries
  are the old ones, written in the same way, except for \<^verbatim>\<open>@babel/core\<close>: a truthy value
  of that entry is kept, and a missing entry becomes \<^verbatim>\<open>^7.9.0\<close>.
\<close>

theorem manifest_for_bundler:
  assumes "devDependencies_usable (package_json W)"
  shows "\<exists>r wr wd.
           tempBuildManifest (package_json W) = Inr r \<and> written (JObj r) = JObj wr \<and>
           (copy W (buildDirectoryLoc W C) (finalDirectoryLoc C) = None \<longrightarrow>
              prepareBuildDirectoryForParcel W C =
                ([CopyFiltered (buildDirectoryLoc W C) (finalDirectoryLoc C),
                  WriteFile (path_join W (buildDirectoryLoc W C) ''package.json'')
                    (ManifestFile (JObj wr)),
                  WriteFile (path_join W (buildDirectoryLoc W C) ''.babelrc'')
                    (TextFile (babelrc (babel_plugin_path W)))], None)) \<and>
           map_of wr ''name'' = None \<and>
           (\<forall>k. k \<noteq> ''name'' \<and> k \<noteq> ''devDependencies'' \<longrightarrow>
                map_of wr k = map_option written (map_of (package_json W) k)) \<and>
           map_of wr ''devDependencies'' = Some (JObj wd) \<and>
           (\<forall>k. k \<noteq> ''@babel/core'' \<longrightarrow>
                map_of wd k =
                  map_option written (map_of (devDependencies_of (package_json W)) k)) \<and>
           (\<forall>v. map_of (devDependencies_of (package_json W)) ''@babel/core'' = Some v \<and>
                truthy v \<longrightarrow> map_of wd ''@babel/core'' = Some (written v)) \<and>
           (map_of (devDependencies_of (package_json W)) ''@babel/core'' = None \<longrightarrow>
                map_of wd ''@babel/core'' = Some (JStr ''^7.9.0''))"
proof -
  let ?m = "package_json W"
  let ?d = "devDependencies_of ?m"
  let ?d' = "AList.update ''@babel/core''
               (or_default (map_of ?d ''@babel/core'') (JStr ''^7.9.0'')) ?d"
  let ?r = "AList.update ''devDependencies'' (JObj ?d') (AList.delete ''name'' ?m)"
  let ?wr = "map (map_prod id written) ?r"
  let ?wd = "map (map_prod id written) ?d'"
  have dd: "map_of (AList.delete ''name'' ?m) ''devDependencies'' = map_of ?m ''devDependencies''"
    by (simp add: delete_conv)
  have "or_default (map_of ?m ''devDependencies'') (JObj []) = JObj ?d"
    using assms
    by (auto simp: devDependencies_usable_def devDependencies_of_def or_default_def truthy_def
             split: option.splits json.splits)
  then have t: "tempBuildManifest ?m = Inr ?r"
    by (simp add: tempBuildManifest_def dd)
  have wj: "written (JObj ?r) = JObj ?wr" by simp
  have w: "prepareBuildDirectoryForParcel W C =
                ([CopyFiltered (buildDirectoryLoc W C) (finalDirectoryLoc C),
                  WriteFile (path_join W (buildDirectoryLoc W C) ''package.json'')
                    (ManifestFile (JObj ?wr)),
                  WriteFile (path_join W (buildDirectoryLoc W C) ''.babelrc'')
                    (TextFile (babelrc (babel_plugin_path W)))], None)"
    if "copy W (buildDirectoryLoc W C) (finalDirectoryLoc C) = None"
    using that t by (simp add: prepareBuildDirectoryForParcel_def andThen_def)
  have h: "map_of ?wr k = map_option written (map_of ?r k)" for k
    by (rule map_of_written)
  have j: "map_of ?wd k = map_option written (map_of ?d' k)" for k
    by (rule map_of_written)
  have n: "map_of ?wr ''name'' = None" unfolding h by (simp add: update_conv delete_conv)
  have o: "map_of ?wr k = map_option written (map_of ?m k)"
    if "k \<noteq> ''name''" "k \<noteq> ''devDependencies''" for k
    unfolding h using that by (simp add: update_conv delete_conv)
  have d: "map_of ?wr ''devDependencies'' = Some (JObj ?wd)"
    unfolding h by (simp add: update_conv)
  have e: "map_of ?wd k = map_option written (map_of ?d k)" if "k \<noteq> ''@babel/core''" for k
    unfolding j using that by (simp add: update_conv)
  have f: "map_of ?wd ''@babel/core'' = Some (written v)"
    if "map_of ?d ''@babel/core'' = Some v" "truthy v" for v
    unfolding j using that by (simp add: update_conv or_default_def)
  have g: "map_of ?wd ''@babel/core'' = Some (JStr ''^7.9.0'')"
    if "map_of ?d ''@babel/core'' = None"
    unfolding j using that by (simp add: update_conv or_default_def)
  show ?thesis
    apply (rule exI [of _ ?r])
    apply (rule exI [of _ ?wr])
    apply (rule exI [of _ ?wd])
    using t wj w n o d e f g by simp
qed

theorem manifest_for_bundler_witness:
  "devDependencies_usable (package_json sample_world) \<and>
   map_of (devDependencies_of (package_json sample_world)) ''@babel/core'' =
     Some (JStr ''^7.0.0'') \<and>
   copy sample_world (buildDirectoryLoc sample_world bundled_config)
     (finalDirectoryLoc bundled_config) = None \<and>
   (\<exists>wr wd.
      prepareBuildDirectoryForParcel sample_world bundled_config =
        ([CopyFiltered ''/app/.build'' ''/app/build'',
          WriteFile ''/app/.build/package.json'' (ManifestFile (JObj wr)),
          WriteFile ''/app/.build/.babelrc''
            (TextFile (babelrc
               ''/app/node_modules/@babel/plugin-syntax-import-meta/lib/index.js''))], None) \<and>
      map_of wr ''name'' = None \<and> map_of wr ''version'' = Some (JStr ''1.0.0'') \<and>
      map_of wr ''devDependencies'' = Some (JObj wd) \<and>
      map_of wd ''typescript'' = Some (JStr ''^3.8.0'') \<and>
      map_of wd ''@babel/core'' = Some (JStr ''^7.0.0''))"
proof -
  let ?W = sample_world
  let ?C = bundled_config
  have h: "devDependencies_usable (package_json ?W)"
    by (simp add: devDependencies_usable_def sample_world_def)
  have b: "map_of (devDependencies_of (package_json ?W)) ''@babel/core'' =
             Some (JStr ''^7.0.0'')"
    and ts: "map_of (devDependencies_of (package_json ?W)) ''typescript'' =
             Some (JStr ''^3.8.0'')"
    and v: "map_of (package_json ?W) ''version'' = Some (JStr ''1.0.0'')"
    by (simp_all add: devDependencies_of_def sample_world_def)
  have c: "copy ?W (buildDirectoryLoc ?W ?C) (finalDirectoryLoc ?C) = None"
    by (simp add: sample_world_def)
  have p: "buildDirectoryLoc ?W ?C = ''/app/.build''" "finalDirectoryLoc ?C = ''/app/build''"
    "path_join ?W ''/app/.build'' ''package.json'' = ''/app/.build/package.json''"
    "path_join ?W ''/app/.build'' ''.babelrc'' = ''/app/.build/.babelrc''"
    "babel_plugin_path ?W = ''/app/node_modules/@babel/plugin-syntax-import-meta/lib/index.js''"
    by (simp_all add: buildDirectoryLoc_def finalDirectoryLoc_def bundled_config_def
          sample_config_def sample_world_def startsWith_def)
  have t: "truthy (JStr ''^7.0.0'')" by (simp add: truthy_def)
  from manifest_for_bundler [OF h, of ?C]
  obtain r wr wd where all:
    "tempBuildManifest (package_json ?W) = Inr r \<and> written (JObj r) = JObj wr \<and>
     (copy ?W (buildDirectoryLoc ?W ?C) (finalDirectoryLoc ?C) = None \<longrightarrow>
              prepareBuildDirectoryForParcel ?W ?C =
                ([CopyFiltered (buildDirectoryLoc ?W ?C) (finalDirectoryLoc ?C),
                  WriteFile (path_join ?W (buildDirectoryLoc ?W ?C) ''package.json'')
                    (ManifestFile (JObj wr)),
                  WriteFile (path_join ?W (buildDirectoryLoc ?W ?C) ''.babelrc'')
                    (TextFile (babelrc (babel_plugin_path ?W)))], None)) \<and>
     map_of wr ''name'' = None \<and>
     (\<forall>k. k \<noteq> ''name'' \<and> k \<noteq> ''devDependencies'' \<longrightarrow>
              map_of wr k = map_option written (map_of (package_json ?W) k)) \<and>
     map_of wr ''devDependencies'' = Some (JObj wd) \<and>
     (\<forall>k. k \<noteq> ''@babel/core'' \<longrightarrow>
              map_of wd k = map_option written (map_of (devDependencies_of (package_json ?W)) k)) \<and>
     (\<forall>v. map_of (devDependencies_of (package_json ?W)) ''@babel/core'' = Some v \<and>
                truthy v \<longrightarrow> map_of wd ''@babel/core'' = Some (written v)) \<and>
     (map_of (devDependencies_of (package_json ?W)) ''@babel/core'' = None \<longrightarrow>
                map_of wd ''@babel/core'' = Some (JStr ''^7.9.0''))"
    by (elim exE) (erule that)
  from all have 0: "copy ?W (buildDirectoryLoc ?W ?C) (finalDirectoryLoc ?C) = None \<longrightarrow>
              prepareBuildDirectoryForParcel ?W ?C =
                ([CopyFiltered (buildDirectoryLoc ?W ?C) (finalDirectoryLoc ?C),
                  WriteFile (path_join ?W (buildDirectoryLoc ?W ?C) ''package.json'')
                    (ManifestFile (JObj wr)),
                  WriteFile (path_join ?W (buildDirectoryLoc ?W ?C) ''.babelrc'')
                    (TextFile (babelrc (babel_plugin_path ?W)))], None)"
    by (elim conjE)
  from all have n: "map_of wr ''name'' = None" by (elim conjE)
  from all have 1: "\<forall>k. k \<noteq> ''name'' \<and> k \<noteq> ''devDependencies'' \<longrightarrow>
              map_of wr k = map_option written (map_of (package_json ?W) k)" by (elim conjE)
  from all have d: "map_of wr ''devDependencies'' = Some (JObj wd)" by (elim conjE)
  from all have 2: "\<forall>k. k \<noteq> ''@babel/core'' \<longrightarrow>
              map_of wd k = map_option written (map_of (devDependencies_of (package_json ?W)) k)"
    by (elim conjE)
  from all have 3: "\<forall>v. map_of (devDependencies_of (package_json ?W)) ''@babel/core'' = Some v \<and>
                truthy v \<longrightarrow> map_of wd ''@babel/core'' = Some (written v)" by (elim conjE)
  have w: "prepareBuildDirectoryForParcel ?W ?C =
        ([CopyFiltered ''/app/.build'' ''/app/build'',
          WriteFile ''/app/.build/package.json'' (ManifestFile (JObj wr)),
          WriteFile ''/app/.build/.babelrc''
            (TextFile (babelrc
               ''/app/node_modules/@babel/plugin-syntax-import-meta/lib/index.js''))], None)"
    using 0 c unfolding p by simp
  have "map_of wr ''version'' = Some (JStr ''1.0.0'')"
    using 1 [rule_format, of "''version''"] v by simp
  moreover have "map_of wd ''typescript'' = Some (JStr ''^3.8.0'')"
    using 2 [rule_format, of "''typescript''"] ts by simp
  moreover have "map_of wd ''@babel/core'' = Some (JStr ''^7.0.0'')"
    using 3 [rule_format, of "JStr ''^7.0.0''"] b t by simp
  ultimately have "prepareBuildDirectoryForParcel ?W ?C =
        ([CopyFiltered ''/app/.build'' ''/app/build'',
          WriteFile ''/app/.build/package.json'' (ManifestFile (JObj wr)),
          WriteFile ''/app/.build/.babelrc''
            (TextFile (babelrc
               ''/app/node_modules/@babel/plugin-syntax-import-meta/lib/index.js''))], None) \<and>
      map_of wr ''name'' = None \<and> map_of wr ''version'' = Some (JStr ''1.0.0'') \<and>
      map_of wr ''devDependencies'' = Some (JObj wd) \<and>
      map_of wd ''typescript'' = Some (JStr ''^3.8.0'') \<and>
      map_of wd ''@babel/core'' = Some (JStr ''^7.0.0'')"
    using w n d by simp
  then have "\<exists>wr wd. prepareBuildDirectoryForParcel ?W ?C =
        ([CopyFiltered ''/app/.build'' ''/app/build'',
          WriteFile ''/app/.build/package.json'' (ManifestFile (JObj wr)),
          WriteFile ''/app/.build/.babelrc''
            (TextFile (babelrc
               ''/app/node_modules/@babel/plugin-syntax-import-meta/lib/index.js''))], None) \<and>
      map_of wr ''name'' = None \<and> map_of wr ''version'' = Some (JStr ''1.0.0'') \<and>
      map_of wr ''devDependencies'' = Some (JObj wd) \<and>
      map_of wd ''typescript'' = Some (JStr ''^3.8.0'') \<and>
      map_of wd ''@babel/core'' = Some (JStr ''^7.0.0'')"
    by (intro exI)
  with h b c show ?thesis by simp
qed

text \<open>
  C7 as it is stated fails for an entry that is present with a falsy value: the empty
  version constraint, which npm reads as any version, is overwritten by \<^verbatim>\<open>^7.9.0\<close>.
  It fails for a field whose number is too large for a double: \<^verbatim>\<open>1e400\<close> is parsed as
  infinity and written as \<^verbatim>\<open>null\<close>. It also fails for a manifest whose
  \<^verbatim>\<open>devDependencies\<close> is an array: the entry is set as a property of the array, which
  \<^verbatim>\<open>JSON.stringify\<close> does not write.
\<close>

theorem manifest_counterexample:
  "map_of (devDependencies_of odd_manifest) ''@babel/core'' = Some (JStr []) \<and>
   map_of odd_manifest ''size'' = Some (JNum PosInfinity) \<and>
   prepareBuildDirectoryForParcel (sample_world\<lparr>package_json := odd_manifest\<rparr>) bundled_config =
     ([CopyFiltered ''/app/.build'' ''/app/build'',
       WriteFile ''/app/.build/package.json''
         (ManifestFile
            (JObj [(''size'', JNull),
                   (''devDependencies'', JObj [(''@babel/core'', JStr ''^7.9.0'')])])),
       WriteFile ''/app/.build/.babelrc''
         (TextFile (babelrc
            ''/app/node_modules/@babel/plugin-syntax-import-meta/lib/index.js''))], None) \<and>
   tempBuildManifest [(''name'', JStr ''app''), (''devDependencies'', JArr [])] =
     Inr [(''devDependencies'', JArr [])]"
  by (simp add: odd_manifest_def devDependencies_of_def prepareBuildDirectoryForParcel_def
        sample_world_def bundled_config_def sample_config_def buildDirectoryLoc_def
        finalDirectoryLoc_def startsWith_def tempBuildManifest_def or_default_def truthy_def
        andThen_def)

end
